theory Spec2Isabelle
  imports Complex_Main
begin

section \<open>Values of the JavaScript runtime\<close>

text \<open>
  The two flows of \<^verbatim>\<open>App.js\<close> reshape parsed JSON. A parsed JSON value is one of the
  constructors below; \<open>JUndefined\<close> is what reading a missing property or index gives.
  Numbers are the finite numbers JSON can carry, taken as reals (so \<open>-0\<close> and \<open>0\<close> are
  one value, as they are for \<^verbatim>\<open>includes\<close>, \<^verbatim>\<open>||\<close> and \<^verbatim>\<open>??\<close>). An object is the list of
  its own properties; the first binding of a key is the property's value.
\<close>

datatype jsval =
    JUndefined
  | JNull
  | JBool bool
  | JNum real
  | JStr string
  | JArr "jsval list"
  | JObj "(string \<times> jsval) list"

text \<open>What a \<^verbatim>\<open>try\<close> block of the source can catch.\<close>

datatype exn =
    TypeError
  | URIError
  | SyntaxError
  | NetworkError
  | Error string

definition bindE :: "exn + 'a \<Rightarrow> ('a \<Rightarrow> exn + 'b) \<Rightarrow> exn + 'b" where
  "bindE m f = (case m of Inl e \<Rightarrow> Inl e | Inr x \<Rightarrow> f x)"

text \<open>\<^verbatim>\<open>Array.prototype.map\<close> calls the callback on the elements in order; the first
  callback that throws ends the loop.\<close>

fun mapE :: "('a \<Rightarrow> exn + 'b) \<Rightarrow> 'a list \<Rightarrow> exn + 'b list" where
  "mapE f [] = Inr []"
| "mapE f (x # xs) =
     (case f x of
        Inl e \<Rightarrow> Inl e
      | Inr y \<Rightarrow> (case mapE f xs of Inl e \<Rightarrow> Inl e | Inr ys \<Rightarrow> Inr (y # ys)))"

text \<open>Truthiness, \<^verbatim>\<open>a || b\<close> and \<^verbatim>\<open>a ?? b\<close>.\<close>

fun truthy :: "jsval \<Rightarrow> bool" where
  "truthy JUndefined = False"
| "truthy JNull = False"
| "truthy (JBool b) = b"
| "truthy (JNum r) = (r \<noteq> 0)"
| "truthy (JStr s) = (s \<noteq> [])"
| "truthy (JArr xs) = True"
| "truthy (JObj kvs) = True"

definition js_or :: "jsval \<Rightarrow> jsval \<Rightarrow> jsval" where
  "js_or a b = (if truthy a then a else b)"

fun nullish :: "jsval \<Rightarrow> bool" where
  "nullish JUndefined = True"
| "nullish JNull = True"
| "nullish v = False"

definition js_coalesce :: "jsval \<Rightarrow> jsval \<Rightarrow> jsval" where
  "js_coalesce a b = (if nullish a then b else a)"

text \<open>
  Property reads \<^verbatim>\<open>v.k\<close> and \<^verbatim>\<open>v?.k\<close>. The source reads the names \<^verbatim>\<open>results\<close>, \<^verbatim>\<open>id\<close>,
  \<^verbatim>\<open>name\<close>, \<^verbatim>\<open>country\<close>, \<^verbatim>\<open>latitude\<close>, \<^verbatim>\<open>longitude\<close>, \<^verbatim>\<open>hourly\<close>, \<^verbatim>\<open>time\<close>,
  \<^verbatim>\<open>temperature_2m\<close>, \<^verbatim>\<open>weathercode\<close> and \<^verbatim>\<open>precipitation_probability\<close>; no prototype
  defines any of them, so a value that is not an object with that own property reads as
  \<^verbatim>\<open>undefined\<close>, and reading from \<^verbatim>\<open>null\<close> or \<^verbatim>\<open>undefined\<close> throws.
\<close>

definition ownProp :: "(string \<times> jsval) list \<Rightarrow> string \<Rightarrow> jsval" where
  "ownProp kvs k = (case map_of kvs k of None \<Rightarrow> JUndefined | Some v \<Rightarrow> v)"

fun getProp :: "jsval \<Rightarrow> string \<Rightarrow> exn + jsval" where
  "getProp JUndefined k = Inl TypeError"
| "getProp JNull k = Inl TypeError"
| "getProp (JObj kvs) k = Inr (ownProp kvs k)"
| "getProp v k = Inr JUndefined"

fun optProp :: "jsval \<Rightarrow> string \<Rightarrow> jsval" where
  "optProp (JObj kvs) k = ownProp kvs k"
| "optProp v k = JUndefined"

text \<open>The decimal numeral of an index, the property key that \<^verbatim>\<open>v[i]\<close> reads on an object.\<close>

definition digit :: "nat \<Rightarrow> char" where
  "digit d = ''0123456789'' ! d"

fun decimal :: "nat \<Rightarrow> string" where
  "decimal n = (if n < 10 then [digit n] else decimal (n div 10) @ [digit (n mod 10)])"

declare decimal.simps [simp del]

text \<open>Indexed read \<^verbatim>\<open>v[i]\<close>: an array element, a one-character string, an object's
  property named by the numeral, and \<^verbatim>\<open>undefined\<close> out of range or on a number or boolean.\<close>

fun getIndex :: "jsval \<Rightarrow> nat \<Rightarrow> exn + jsval" where
  "getIndex JUndefined i = Inl TypeError"
| "getIndex JNull i = Inl TypeError"
| "getIndex (JArr xs) i = Inr (if i < length xs then xs ! i else JUndefined)"
| "getIndex (JStr s) i = Inr (if i < length s then JStr [s ! i] else JUndefined)"
| "getIndex (JObj kvs) i = Inr (ownProp kvs (decimal i))"
| "getIndex v i = Inr JUndefined"

text \<open>\<^verbatim>\<open>v.slice(0, 24)\<close>: arrays and strings have the method; on any other value the call
  throws (a parsed JSON value is never a function, so an own property \<^verbatim>\<open>slice\<close> does not
  help).\<close>

fun slice_0_24 :: "jsval \<Rightarrow> exn + jsval" where
  "slice_0_24 (JArr xs) = Inr (JArr (take 24 xs))"
| "slice_0_24 (JStr s) = Inr (JStr (take 24 s))"
| "slice_0_24 v = Inl TypeError"

text \<open>\<^verbatim>\<open>v.map((x, i) => ...)\<close>: only arrays have the method.\<close>

fun js_map :: "(jsval \<Rightarrow> nat \<Rightarrow> exn + 'b) \<Rightarrow> jsval \<Rightarrow> exn + 'b list" where
  "js_map f (JArr xs) = mapE (\<lambda>(i, x). f x i) (enumerate 0 xs)"
| "js_map f v = Inl TypeError"

text \<open>
  The built-in functions of the runtime that the source calls on strings are parameters
  of the model: \<^verbatim>\<open>String.prototype.trim\<close>, \<^verbatim>\<open>String.prototype.toLowerCase\<close>,
  \<^verbatim>\<open>encodeURIComponent\<close> (\<open>None\<close> when it throws \<^verbatim>\<open>URIError\<close>) and the string conversion
  of a template literal \<^verbatim>\<open>`${v}`\<close> (\<open>None\<close> when it throws \<^verbatim>\<open>TypeError\<close>).
\<close>

record runtime =
  trim :: "string \<Rightarrow> string"
  toLowerCase :: "string \<Rightarrow> string"
  encodeURIComponent :: "string \<Rightarrow> string option"
  ToString :: "jsval \<Rightarrow> string option"

definition template :: "runtime \<Rightarrow> jsval \<Rightarrow> exn + string" where
  "template rt v = (case ToString rt v of None \<Rightarrow> Inl TypeError | Some s \<Rightarrow> Inr s)"

definition encodeComponent :: "runtime \<Rightarrow> string \<Rightarrow> exn + string" where
  "encodeComponent rt s = (case encodeURIComponent rt s of None \<Rightarrow> Inl URIError | Some e \<Rightarrow> Inr e)"

section \<open>The weather-code classifier\<close>

text \<open>The nine string literals that \<^verbatim>\<open>codeToEmoji\<close> returns, as the UTF-8 bytes of the
  source file: U+2600 U+FE0F, U+1F324 U+FE0F, U+2601 U+FE0F, U+1F32B U+FE0F,
  U+1F326 U+FE0F, U+1F327 U+FE0F, U+2744 U+FE0F, U+26C8 U+FE0F and U+1F300.\<close>

definition emoji_clear :: string where
  "emoji_clear = [CHR 0xE2, CHR 0x98, CHR 0x80, CHR 0xEF, CHR 0xB8, CHR 0x8F]"

definition emoji_partly_cloudy :: string where
  "emoji_partly_cloudy = [CHR 0xF0, CHR 0x9F, CHR 0x8C, CHR 0xA4, CHR 0xEF, CHR 0xB8, CHR 0x8F]"

definition emoji_overcast :: string where
  "emoji_overcast = [CHR 0xE2, CHR 0x98, CHR 0x81, CHR 0xEF, CHR 0xB8, CHR 0x8F]"

definition emoji_fog :: string where
  "emoji_fog = [CHR 0xF0, CHR 0x9F, CHR 0x8C, CHR 0xAB, CHR 0xEF, CHR 0xB8, CHR 0x8F]"

definition emoji_drizzle :: string where
  "emoji_drizzle = [CHR 0xF0, CHR 0x9F, CHR 0x8C, CHR 0xA6, CHR 0xEF, CHR 0xB8, CHR 0x8F]"

definition emoji_rain :: string where
  "emoji_rain = [CHR 0xF0, CHR 0x9F, CHR 0x8C, CHR 0xA7, CHR 0xEF, CHR 0xB8, CHR 0x8F]"

definition emoji_snow :: string where
  "emoji_snow = [CHR 0xE2, CHR 0x9D, CHR 0x84, CHR 0xEF, CHR 0xB8, CHR 0x8F]"

definition emoji_thunderstorm :: string where
  "emoji_thunderstorm = [CHR 0xE2, CHR 0x9B, CHR 0x88, CHR 0xEF, CHR 0xB8, CHR 0x8F]"

definition emoji_unknown :: string where
  "emoji_unknown = [CHR 0xF0, CHR 0x9F, CHR 0x8C, CHR 0x80]"

text \<open>\<^verbatim>\<open>[c1, ..., cn].includes(code)\<close> on a list of number literals: \<^verbatim>\<open>code\<close> is one of
  these numbers.\<close>

definition js_includes :: "real list \<Rightarrow> jsval \<Rightarrow> bool" where
  "js_includes cs code = (code \<in> set (map JNum cs))"

definition codeToEmoji :: "jsval \<Rightarrow> string" where
  "codeToEmoji code =
     (if js_includes [0] code then emoji_clear
      else if js_includes [1, 2] code then emoji_partly_cloudy
      else if js_includes [3] code then emoji_overcast
      else if js_includes [45, 48] code then emoji_fog
      else if js_includes [51, 53, 55, 56, 57] code then emoji_drizzle
      else if js_includes [61, 63, 65, 66, 67, 80, 81, 82] code then emoji_rain
      else if js_includes [71, 73, 75, 77, 85, 86] code then emoji_snow
      else if js_includes [95, 96, 99] code then emoji_thunderstorm
      else emoji_unknown)"

definition categories :: "string list" where
  "categories =
     [emoji_clear, emoji_partly_cloudy, emoji_overcast, emoji_fog, emoji_drizzle,
      emoji_rain, emoji_snow, emoji_thunderstorm, emoji_unknown]"

section \<open>The state of the component\<close>

text \<open>A candidate place, as the callback of \<^verbatim>\<open>searchCity\<close> builds it: \<^verbatim>\<open>id\<close> is a
  string (a template literal), the other fields are copied from the response as they are.\<close>

record Place =
  id' :: string
  name :: jsval
  country :: jsval
  lat :: jsval
  lon :: jsval

text \<open>One row of \<^verbatim>\<open>hours\<close>, as the callback of \<^verbatim>\<open>fetchWeather\<close> builds it.\<close>

record HourSample =
  key :: jsval
  time :: jsval
  temp :: jsval
  code :: jsval
  pop :: jsval

text \<open>The \<^verbatim>\<open>useState\<close> cells of \<^verbatim>\<open>App\<close>; \<open>place = None\<close> is \<^verbatim>\<open>null\<close>.\<close>

record app_state =
  query :: string
  recent :: "string list"
  mode :: string
  cities :: "Place list"
  loadingCity :: bool
  loadingWx :: bool
  error :: string
  place :: "Place option"
  hours :: "HourSample list"

definition initial_state :: app_state where
  "initial_state =
     \<lparr>query = [], recent = [''Hamilton'', ''Toronto'', ''New York''], mode = ''basic'',
      cities = [], loadingCity = False, loadingWx = False, error = [], place = None,
      hours = []\<rparr>"

text \<open>What a flow does besides writing the state.\<close>

datatype effect =
    KeyboardDismiss
  | Fetch string

text \<open>
  What the two awaits \<^verbatim>\<open>await fetch(url)\<close> and \<^verbatim>\<open>await res.json()\<close> give the flow:
  \<open>Rejected\<close> when \<^verbatim>\<open>fetch\<close> throws, otherwise \<^verbatim>\<open>res.ok\<close> and the parsed body
  (\<open>None\<close> when \<^verbatim>\<open>res.json()\<close> throws).
\<close>

datatype response =
    Rejected
  | Response bool "jsval option"

section \<open>The location search\<close>

definition search_failed :: string where
  "search_failed = ''City search failed. Check your connection or try a different name.''"

definition geocoding_url :: "string \<Rightarrow> string" where
  "geocoding_url e =
     ''https://geocoding-api.open-meteo.com/v1/search?name='' @ e @
     ''&count=5&language=en&format=json''"

text \<open>The updater passed to \<^verbatim>\<open>setRecent\<close>.\<close>

definition recent_next :: "runtime \<Rightarrow> string \<Rightarrow> string list \<Rightarrow> string list" where
  "recent_next rt q prev =
     take 8 (q # filter (\<lambda>x. toLowerCase rt x \<noteq> toLowerCase rt q) prev)"

text \<open>The callback of \<^verbatim>\<open>(data.results || []).map\<close>.\<close>

definition to_city :: "runtime \<Rightarrow> jsval \<Rightarrow> exn + Place" where
  "to_city rt r =
     bindE (getProp r ''id'') (\<lambda>i.
     bindE (template rt i) (\<lambda>s.
     bindE (getProp r ''name'') (\<lambda>n.
     bindE (getProp r ''country'') (\<lambda>c.
     bindE (getProp r ''latitude'') (\<lambda>la.
     bindE (getProp r ''longitude'') (\<lambda>lo.
     Inr \<lparr>id' = s, name = n, country = c, lat = la, lon = lo\<rparr>))))))"

text \<open>The \<^verbatim>\<open>try\<close> block of \<^verbatim>\<open>searchCity\<close> from the response on: the value it passes to
  \<^verbatim>\<open>setCities\<close>, or what it throws.\<close>

definition searchCity_try :: "runtime \<Rightarrow> response \<Rightarrow> exn + Place list" where
  "searchCity_try rt resp =
     (case resp of
        Rejected \<Rightarrow> Inl NetworkError
      | Response ok body \<Rightarrow>
          if \<not> ok then Inl (Error ''Geocoding failed'')
          else (case body of
                  None \<Rightarrow> Inl SyntaxError
                | Some data \<Rightarrow>
                    bindE (getProp data ''results'') (\<lambda>res.
                    js_map (\<lambda>r i. to_city rt r) (js_or res (JArr [])))))"

text \<open>\<^verbatim>\<open>(text || query).trim()\<close>; \<open>None\<close> is a call without argument.\<close>

definition search_text :: "runtime \<Rightarrow> string option \<Rightarrow> app_state \<Rightarrow> string" where
  "search_text rt text st =
     trim rt (case text of
                None \<Rightarrow> query st
              | Some s \<Rightarrow> if s \<noteq> [] then s else query st)"

text \<open>
  \<^verbatim>\<open>searchCity\<close> up to \<^verbatim>\<open>await fetch(url)\<close>: the state it leaves, its effects, and the
  query whose response it waits for (\<open>None\<close> when the call is over: the empty query, or
  building the URL threw and \<^verbatim>\<open>catch\<close> and \<^verbatim>\<open>finally\<close> have run).
\<close>

definition searchCity_begin ::
  "runtime \<Rightarrow> string option \<Rightarrow> app_state \<Rightarrow> app_state \<times> effect list \<times> string option" where
  "searchCity_begin rt text st =
     (let q = search_text rt text st in
      if q = [] then (st, [], None)
      else
        let st1 = st\<lparr>loadingCity := True, error := [], cities := []\<rparr> in
        (case encodeComponent rt q of
           Inl e \<Rightarrow>
             (st1\<lparr>error := search_failed, loadingCity := False\<rparr>, [KeyboardDismiss], None)
         | Inr e \<Rightarrow> (st1, [KeyboardDismiss, Fetch (geocoding_url e)], Some q)))"

text \<open>\<^verbatim>\<open>searchCity\<close> from the response on, in the state the response finds.\<close>

definition searchCity_end :: "runtime \<Rightarrow> string \<Rightarrow> response \<Rightarrow> app_state \<Rightarrow> app_state" where
  "searchCity_end rt q resp st =
     (case searchCity_try rt resp of
        Inl e \<Rightarrow> st\<lparr>error := search_failed, loadingCity := False\<rparr>
      | Inr cs \<Rightarrow>
          st\<lparr>cities := cs, recent := recent_next rt q (recent st), loadingCity := False\<rparr>)"

text \<open>One call of \<^verbatim>\<open>searchCity\<close> with nothing else happening before its response.\<close>

definition searchCity ::
  "runtime \<Rightarrow> string option \<Rightarrow> response \<Rightarrow> app_state \<Rightarrow> app_state \<times> effect list" where
  "searchCity rt text resp st =
     (case searchCity_begin rt text st of
        (st1, fx, None) \<Rightarrow> (st1, fx)
      | (st1, fx, Some q) \<Rightarrow> (searchCity_end rt q resp st1, fx))"

section \<open>The forecast\<close>

definition forecast_failed :: string where
  "forecast_failed = ''Could not load forecast. Please try again.''"

definition hourly_fields :: "string \<Rightarrow> string" where
  "hourly_fields m =
     (if m = ''precip'' then ''temperature_2m,precipitation_probability,weathercode''
      else ''temperature_2m,weathercode'')"

text \<open>The template literal of the forecast URL; converting \<^verbatim>\<open>p.lat\<close> or \<^verbatim>\<open>p.lon\<close> to a
  string can throw.\<close>

definition forecast_url :: "runtime \<Rightarrow> string \<Rightarrow> Place \<Rightarrow> exn + string" where
  "forecast_url rt m p =
     bindE (template rt (lat p)) (\<lambda>la.
     bindE (template rt (lon p)) (\<lambda>lo.
     Inr (''https://api.open-meteo.com/v1/forecast?latitude='' @ la @ ''&longitude='' @ lo @
          ''&hourly='' @ hourly_fields m @ ''&timezone=auto'')))"

text \<open>The callback of \<^verbatim>\<open>t.slice(0, 24).map\<close>, with the three other arrays in scope.\<close>

definition to_row :: "jsval \<Rightarrow> jsval \<Rightarrow> jsval \<Rightarrow> jsval \<Rightarrow> nat \<Rightarrow> exn + HourSample" where
  "to_row tempv codev popv tm i =
     bindE (getIndex tempv i) (\<lambda>te.
     bindE (getIndex codev i) (\<lambda>co.
     bindE (if truthy popv then getIndex popv i else Inr JUndefined) (\<lambda>po.
     Inr \<lparr>key = tm, time = tm, temp = te, code = co, pop = po\<rparr>)))"

text \<open>\<^verbatim>\<open>data?.hourly?.k || []\<close>.\<close>

definition hourly_array :: "jsval \<Rightarrow> string \<Rightarrow> jsval" where
  "hourly_array data k = js_or (optProp (optProp data ''hourly'') k) (JArr [])"

text \<open>The lines of \<^verbatim>\<open>fetchWeather\<close> from \<^verbatim>\<open>const t\<close> to \<^verbatim>\<open>const rows\<close>, on the parsed body.\<close>

definition rows_of :: "jsval \<Rightarrow> exn + HourSample list" where
  "rows_of data =
     (let t = hourly_array data ''time'';
          tempv = hourly_array data ''temperature_2m'';
          codev = hourly_array data ''weathercode'';
          popv = hourly_array data ''precipitation_probability''
      in bindE (slice_0_24 t) (js_map (to_row tempv codev popv)))"

text \<open>The \<^verbatim>\<open>try\<close> block of \<^verbatim>\<open>fetchWeather\<close> from the response on: the value it passes to
  \<^verbatim>\<open>setHours\<close>, or what it throws.\<close>

definition fetchWeather_try :: "response \<Rightarrow> exn + HourSample list" where
  "fetchWeather_try resp =
     (case resp of
        Rejected \<Rightarrow> Inl NetworkError
      | Response ok body \<Rightarrow>
          if \<not> ok then Inl (Error ''Forecast failed'')
          else (case body of None \<Rightarrow> Inl SyntaxError | Some data \<Rightarrow> rows_of data))"

text \<open>
  \<^verbatim>\<open>fetchWeather\<close> up to \<^verbatim>\<open>await fetch(url)\<close>: the state it leaves, its effects, and
  whether it waits for a response (it does not for \<^verbatim>\<open>null\<close>, or when building the URL
  threw and \<^verbatim>\<open>catch\<close> and \<^verbatim>\<open>finally\<close> have run).
\<close>

definition fetchWeather_begin ::
  "runtime \<Rightarrow> Place option \<Rightarrow> app_state \<Rightarrow> app_state \<times> effect list \<times> bool" where
  "fetchWeather_begin rt p st =
     (case p of
        None \<Rightarrow> (st, [], False)
      | Some pl \<Rightarrow>
          let st1 = st\<lparr>loadingWx := True, error := [], place := Some pl, hours := []\<rparr> in
          (case forecast_url rt (mode st) pl of
             Inl e \<Rightarrow> (st1\<lparr>error := forecast_failed, loadingWx := False\<rparr>, [], False)
           | Inr url \<Rightarrow> (st1, [Fetch url], True)))"

text \<open>\<^verbatim>\<open>fetchWeather\<close> from the response on, in the state the response finds.\<close>

definition fetchWeather_end :: "response \<Rightarrow> app_state \<Rightarrow> app_state" where
  "fetchWeather_end resp st =
     (case fetchWeather_try resp of
        Inl e \<Rightarrow> st\<lparr>error := forecast_failed, loadingWx := False\<rparr>
      | Inr rows \<Rightarrow> st\<lparr>hours := rows, loadingWx := False\<rparr>)"

text \<open>One call of \<^verbatim>\<open>fetchWeather\<close> with nothing else happening before its response.\<close>

definition fetchWeather ::
  "runtime \<Rightarrow> Place option \<Rightarrow> response \<Rightarrow> app_state \<Rightarrow> app_state \<times> effect list" where
  "fetchWeather rt p resp st =
     (case fetchWeather_begin rt p st of
        (st1, fx, False) \<Rightarrow> (st1, fx)
      | (st1, fx, True) \<Rightarrow> (fetchWeather_end resp st1, fx))"

text \<open>
  Pressing a mode chip calls \<^verbatim>\<open>setMode(value)\<close>. Setting the value the state already has
  renders nothing again, so the effect with dependency \<^verbatim>\<open>[mode]\<close> does not run; a new
  value renders, and the effect calls \<^verbatim>\<open>fetchWeather(place)\<close> when \<^verbatim>\<open>place\<close> is not null.
\<close>

definition setMode_begin ::
  "runtime \<Rightarrow> string \<Rightarrow> app_state \<Rightarrow> app_state \<times> effect list \<times> bool" where
  "setMode_begin rt v st =
     (if v = mode st then (st, [], False)
      else (case place st of
              None \<Rightarrow> (st\<lparr>mode := v\<rparr>, [], False)
            | Some p \<Rightarrow> fetchWeather_begin rt (Some p) (st\<lparr>mode := v\<rparr>)))"

section \<open>Rendering an hour\<close>

text \<open>
  The \<^verbatim>\<open>Text\<close> children of \<^verbatim>\<open>HourRow\<close>, in order. \<open>HourTime v\<close> is the text of
  \<^verbatim>\<open>hour(v)\<close>, \<open>HourTemp v\<close> that of \<^verbatim>\<open>Math.round(v)\<close> followed by the degree sign,
  \<open>HourPop v\<close> that of \<^verbatim>\<open>v\<close> followed by the percent sign.
\<close>

datatype cell =
    HourTime jsval
  | HourEmoji string
  | HourTemp jsval
  | HourPop jsval

definition HourRow :: "string \<Rightarrow> HourSample \<Rightarrow> cell list" where
  "HourRow m item =
     [HourTime (time item), HourEmoji (codeToEmoji (code item)), HourTemp (temp item)] @
     (if m = ''precip'' then [HourPop (js_coalesce (pop item) (JNum 0))] else [])"

fun is_pop :: "cell \<Rightarrow> bool" where
  "is_pop (HourPop v) = True"
| "is_pop c = False"

section \<open>An instance of the runtime\<close>

text \<open>
  One value of the parameters, for evaluating the model on concrete inputs: the
  built-ins as they behave on ASCII strings, and the string conversion as it behaves on
  \<^verbatim>\<open>undefined\<close>, \<^verbatim>\<open>null\<close>, booleans, strings and integers of magnitude below \<open>2^53\<close>.
  On every other value (a number with a fraction or a larger one, an array, an object)
  this instance gives \<open>None\<close>, which is not what JavaScript does there; it is only
  applied to values of the first kind, and no property below is about it.
\<close>

definition is_space :: "char \<Rightarrow> bool" where
  "is_space c = (c \<in> set [CHR 0x09, CHR 0x0A, CHR 0x0B, CHR 0x0C, CHR 0x0D, CHR 0x20])"

definition ascii_trim :: "string \<Rightarrow> string" where
  "ascii_trim s = rev (dropWhile is_space (rev (dropWhile is_space s)))"

definition lower_char :: "char \<Rightarrow> char" where
  "lower_char c =
     (case map_of (zip ''ABCDEFGHIJKLMNOPQRSTUVWXYZ'' ''abcdefghijklmnopqrstuvwxyz'') c of
        None \<Rightarrow> c
      | Some l \<Rightarrow> l)"

definition ascii_lower :: "string \<Rightarrow> string" where
  "ascii_lower s = map lower_char s"

definition unreserved :: "char \<Rightarrow> bool" where
  "unreserved c =
     (c \<in> set ''ABCDEFGHIJKLMNOPQRSTUVWXYZabcdefghijklmnopqrstuvwxyz0123456789-_.!~*()'' \<or>
      c = CHR 0x27)"

definition hex_digit :: "nat \<Rightarrow> char" where
  "hex_digit d = ''0123456789ABCDEF'' ! d"

definition percent :: "char \<Rightarrow> string" where
  "percent c =
     (let n = (of_char c :: nat) in [CHR ''%'', hex_digit (n div 16), hex_digit (n mod 16)])"

definition ascii_encode :: "string \<Rightarrow> string option" where
  "ascii_encode s = Some (concat (map (\<lambda>c. if unreserved c then [c] else percent c) s))"

fun ascii_ToString :: "jsval \<Rightarrow> string option" where
  "ascii_ToString JUndefined = Some ''undefined''"
| "ascii_ToString JNull = Some ''null''"
| "ascii_ToString (JBool b) = Some (if b then ''true'' else ''false'')"
| "ascii_ToString (JStr s) = Some s"
| "ascii_ToString (JNum r) =
     (if r = of_int \<lfloor>r\<rfloor> \<and> \<bar>r\<bar> < 2 ^ 53
      then Some ((if r < 0 then ''-'' else []) @ decimal (nat \<bar>\<lfloor>r\<rfloor>\<bar>))
      else None)"
| "ascii_ToString v = None"

definition ascii_runtime :: runtime where
  "ascii_runtime =
     \<lparr>trim = ascii_trim, toLowerCase = ascii_lower, encodeURIComponent = ascii_encode,
      ToString = ascii_ToString\<rparr>"

section \<open>Notions used in the properties\<close>

text \<open>No two entries are equal once lower-cased.\<close>

definition ci_distinct :: "runtime \<Rightarrow> string list \<Rightarrow> bool" where
  "ci_distinct rt xs = distinct (map (toLowerCase rt) xs)"

text \<open>The values \<^verbatim>\<open>recent\<close> can take: its initial value, and the result of the updater
  for a non-empty query.\<close>

inductive recent_reachable :: "runtime \<Rightarrow> string list \<Rightarrow> bool" for rt where
  initial: "recent_reachable rt (recent initial_state)"
| submit: "recent_reachable rt prev \<Longrightarrow> q \<noteq> [] \<Longrightarrow> recent_reachable rt (recent_next rt q prev)"

fun is_number :: "jsval \<Rightarrow> bool" where
  "is_number (JNum r) = True"
| "is_number v = False"

subsection \<open>Concrete inputs\<close>

definition hamilton :: Place where
  "hamilton =
     \<lparr>id' = ''5969782'', name = JStr ''Hamilton'', country = JStr ''Canada'',
      lat = JNum 43, lon = JNum (- 80)\<rparr>"

definition oslo :: Place where
  "oslo =
     \<lparr>id' = ''3143244'', name = JStr ''Oslo'', country = JStr ''Norway'',
      lat = JNum 60, lon = JNum 11\<rparr>"

definition two_hours :: jsval where
  "two_hours =
     JObj [(''hourly'',
        JObj [(''time'', JArr [JStr ''2025-01-01T00:00'', JStr ''2025-01-01T01:00'']),
              (''temperature_2m'', JArr [JNum 1, JNum 2]),
              (''weathercode'', JArr [JNum 3, JNum 61])])]"

definition hamilton_result :: jsval where
  "hamilton_result =
     JObj [(''id'', JNum 5969782), (''name'', JStr ''Hamilton''), (''country'', JStr ''Canada''),
           (''latitude'', JNum 43), (''longitude'', JNum (- 80))]"

definition hamilton_found :: response where
  "hamilton_found = Response True (Some (JObj [(''results'', JArr [hamilton_result])]))"

definition no_encoding :: runtime where
  "no_encoding = ascii_runtime\<lparr>encodeURIComponent := (\<lambda>s. None)\<rparr>"

definition full_recent :: app_state where
  "full_recent =
     initial_state\<lparr>recent := [''Oslo'', ''Lima'', ''Rome'', ''Cairo'', ''Paris'', ''Quito'',
                              ''Delhi'', ''Tokyo'']\<rparr>"

definition springfield :: jsval where
  "springfield =
     JObj [(''id'', JNum 1), (''name'', JStr ''Springfield''),
           (''country'', JStr ''United States''), (''latitude'', JStr ''39.8''),
           (''longitude'', JNull)]"

definition six_results :: jsval where
  "six_results =
     JObj [(''results'',
        JArr [springfield, springfield, springfield, springfield, springfield, springfield])]"

section \<open>Auxiliary facts\<close>

lemmas runtime_defs =
  ascii_runtime_def ascii_trim_def is_space_def ascii_lower_def lower_char_def
  ascii_encode_def unreserved_def percent_def hex_digit_def decimal.simps digit_def
  template_def encodeComponent_def

lemmas flow_defs =
  searchCity_def searchCity_begin_def searchCity_end_def searchCity_try_def search_text_def
  to_city_def geocoding_url_def recent_next_def
  fetchWeather_def fetchWeather_begin_def fetchWeather_end_def fetchWeather_try_def
  rows_of_def to_row_def hourly_array_def forecast_url_def hourly_fields_def
  setMode_begin_def bindE_def js_or_def ownProp_def Let_def

lemmas input_defs =
  initial_state_def hamilton_def hamilton_result_def two_hours_def springfield_def
  six_results_def oslo_def hamilton_found_def no_encoding_def full_recent_def

lemma mapE_Inr:
  "mapE f xs = Inr ys \<Longrightarrow>
     length ys = length xs \<and> (\<forall>i<length xs. f (xs ! i) = Inr (ys ! i))"
proof (induction xs arbitrary: ys)
  case Nil
  then show ?case by simp
next
  case (Cons x xs)
  from Cons.prems obtain y ys' where fx: "f x = Inr y" and rest: "mapE f xs = Inr ys'"
    and ys: "ys = y # ys'"
    by (auto split: sum.splits)
  from Cons.IH [OF rest] have len: "length ys' = length xs"
    and nth: "\<forall>i<length xs. f (xs ! i) = Inr (ys' ! i)"
    by simp_all
  show ?case
  proof (intro conjI allI impI)
    show "length ys = length (x # xs)" using len ys by simp
  next
    fix i assume "i < length (x # xs)"
    then show "f ((x # xs) ! i) = Inr (ys ! i)"
      using fx nth ys by (cases i) simp_all
  qed
qed

lemma js_map_Inr:
  assumes "js_map f v = Inr ys"
  shows "\<exists>xs. v = JArr xs \<and> length ys = length xs \<and>
           (\<forall>i<length xs. f (xs ! i) i = Inr (ys ! i))"
proof (cases v)
  case (JArr xs)
  with assms have m: "mapE (\<lambda>(i, x). f x i) (enumerate 0 xs) = Inr ys" by simp
  from mapE_Inr [OF m] have "length ys = length xs"
    and "\<forall>i<length xs. (\<lambda>(i, x). f x i) (enumerate 0 xs ! i) = Inr (ys ! i)"
    by simp_all
  then show ?thesis using JArr by (simp add: nth_enumerate_eq)
qed (use assms in simp_all)







lemma to_city_Inr:
  assumes "to_city rt r = Inr c"
  shows "(\<exists>i. getProp r ''id'' = Inr i \<and> template rt i = Inr (id' c)) \<and>
         getProp r ''name'' = Inr (name c) \<and> getProp r ''country'' = Inr (country c) \<and>
         getProp r ''latitude'' = Inr (lat c) \<and> getProp r ''longitude'' = Inr (lon c)"
  using assms by (auto simp: to_city_def bindE_def split: sum.splits)

lemma searchCity_try_Inr:
  assumes "searchCity_try rt resp = Inr cs"
  shows "\<exists>data res. resp = Response True (Some data) \<and> getProp data ''results'' = Inr res \<and>
           js_map (\<lambda>r i. to_city rt r) (js_or res (JArr [])) = Inr cs"
  using assms
  by (auto simp: searchCity_try_def bindE_def
      split: response.splits option.splits if_splits sum.splits)

lemma searchCity_thrown:
  assumes "search_text rt text st \<noteq> []"
    and "searchCity_try rt resp = Inl e \<or> encodeURIComponent rt (search_text rt text st) = None"
  shows "fst (searchCity rt text resp st) =
           st\<lparr>loadingCity := False, error := search_failed, cities := []\<rparr>"
  using assms
  by (auto simp: searchCity_def searchCity_begin_def searchCity_end_def encodeComponent_def
      Let_def split: sum.splits option.splits)

lemma fetchWeather_thrown:
  assumes "fetchWeather_try resp = Inl e \<or> forecast_url rt (mode st) p = Inl e'"
  shows "fst (fetchWeather rt (Some p) resp st) =
           st\<lparr>loadingWx := False, error := forecast_failed, place := Some p, hours := []\<rparr>"
  using assms
  by (auto simp: fetchWeather_def fetchWeather_begin_def fetchWeather_end_def Let_def
      split: sum.splits)

lemma searchCity_success:
  assumes "search_text rt text st = q" and "q \<noteq> []" and "encodeURIComponent rt q = Some e"
    and "searchCity_try rt resp = Inr cs"
  shows "searchCity rt text resp st =
           (st\<lparr>loadingCity := False, error := [], cities := cs,
               recent := recent_next rt q (recent st)\<rparr>,
            [KeyboardDismiss, Fetch (geocoding_url e)])"
  using assms
  by (simp add: searchCity_def searchCity_begin_def searchCity_end_def encodeComponent_def
      Let_def)

lemma recent_next_shape:
  "recent_next rt q prev =
     q # take 7 (filter (\<lambda>x. toLowerCase rt x \<noteq> toLowerCase rt q) prev)"
proof -
  have "take 8 (q # ys) = q # take 7 ys" for ys :: "string list"
    by (simp add: take_Cons')
  then show ?thesis by (simp add: recent_next_def)
qed

lemma recent_next_length: "length (recent_next rt q prev) \<le> 8"
  by (simp add: recent_next_def)

lemma recent_next_tail:
  "x \<in> set (tl (recent_next rt q prev)) \<Longrightarrow> toLowerCase rt x \<noteq> toLowerCase rt q"
  by (auto simp: recent_next_shape dest: in_set_takeD)

lemma distinct_map_take: "distinct (map f xs) \<Longrightarrow> distinct (map f (take n xs))"
  by (simp add: take_map [symmetric])

lemma recent_next_ci_distinct:
  assumes "ci_distinct rt prev"
  shows "ci_distinct rt (recent_next rt q prev)"
proof -
  let ?f = "toLowerCase rt"
  let ?ys = "filter (\<lambda>x. ?f x \<noteq> ?f q) prev"
  have d: "distinct (map ?f ?ys)"
    using assms by (simp add: ci_distinct_def distinct_map_filter)
  have "?f q \<notin> set (map ?f (take 7 ?ys))"
    by (auto dest: in_set_takeD)
  with distinct_map_take [OF d, of 7] show ?thesis
    by (simp add: ci_distinct_def recent_next_shape)
qed

lemma filter_is_remove1:
  assumes "distinct (map f xs)" and "x \<in> set xs" and "f x = k"
  shows "filter (\<lambda>y. f y \<noteq> k) xs = remove1 x xs"
  using assms
proof (induction xs)
  case Nil
  then show ?case by simp
next
  case (Cons a xs)
  show ?case
  proof (cases "a = x")
    case True
    with Cons.prems have "\<forall>y\<in>set xs. f y \<noteq> k" by (auto simp: image_iff)
    then have "filter (\<lambda>y. f y \<noteq> k) xs = xs" by (simp add: filter_id_conv)
    with True Cons.prems show ?thesis by simp
  next
    case False
    with Cons.prems have "x \<in> set xs" and "f a \<noteq> k" and "distinct (map f xs)"
      by (auto simp: image_iff)
    with Cons.IH Cons.prems False show ?thesis by simp
  qed
qed

lemma recent_next_moves_to_front:
  assumes "ci_distinct rt prev" and "length prev \<le> 8" and "x \<in> set prev"
    and "toLowerCase rt x = toLowerCase rt q"
  shows "recent_next rt q prev = q # remove1 x prev"
proof -
  have "filter (\<lambda>y. toLowerCase rt y \<noteq> toLowerCase rt q) prev = remove1 x prev"
    using assms by (intro filter_is_remove1) (simp_all add: ci_distinct_def)
  moreover have "length (remove1 x prev) \<le> 7"
    using assms by (simp add: length_remove1)
  ultimately show ?thesis by (simp add: recent_next_shape)
qed

lemma recent_reachable_invariant:
  assumes "recent_reachable rt xs" and "ci_distinct rt (recent initial_state)"
  shows "ci_distinct rt xs \<and> length xs \<le> 8"
  using assms
proof (induction rule: recent_reachable.induct)
  case initial
  then show ?case by (simp add: initial_state_def)
next
  case (submit prev q)
  then show ?case by (simp add: recent_next_ci_distinct recent_next_length)
qed

lemma searchCity_end_thrown:
  assumes "searchCity_try rt resp = Inl e"
  shows "searchCity_end rt q resp st = st\<lparr>error := search_failed, loadingCity := False\<rparr>"
  using assms by (simp add: searchCity_end_def)

lemma searchCity_end_success:
  assumes "searchCity_try rt resp = Inr cs"
  shows "searchCity_end rt q resp st =
           st\<lparr>cities := cs, recent := recent_next rt q (recent st), loadingCity := False\<rparr>"
  using assms by (simp add: searchCity_end_def)

lemma fetchWeather_end_thrown:
  assumes "fetchWeather_try resp = Inl e"
  shows "fetchWeather_end resp st = st\<lparr>error := forecast_failed, loadingWx := False\<rparr>"
  using assms by (simp add: fetchWeather_end_def)

lemma searchCity_begin_awaits:
  assumes "search_text rt text st = q" and "q \<noteq> []" and "encodeURIComponent rt q = Some u"
  shows "searchCity_begin rt text st =
           (st\<lparr>loadingCity := True, error := [], cities := []\<rparr>,
            [KeyboardDismiss, Fetch (geocoding_url u)], Some q)"
  using assms by (simp add: searchCity_begin_def encodeComponent_def Let_def)

lemma searchCity_not_encoded:
  assumes "search_text rt text st = q" and "q \<noteq> []" and "encodeURIComponent rt q = None"
  shows "searchCity rt text resp st =
           (st\<lparr>loadingCity := False, error := search_failed, cities := []\<rparr>,
            [KeyboardDismiss])"
  using assms by (simp add: searchCity_def searchCity_begin_def encodeComponent_def Let_def)

lemma searchCity_effects:
  assumes "search_text rt text st = q" and "q \<noteq> []" and "encodeURIComponent rt q = Some u"
  shows "snd (searchCity rt text resp st) = [KeyboardDismiss, Fetch (geocoding_url u)]"
  using assms by (simp add: searchCity_def searchCity_begin_awaits)

lemma fetchWeather_begin_awaits:
  assumes "forecast_url rt (mode st) p = Inr url"
  shows "fetchWeather_begin rt (Some p) st =
           (st\<lparr>loadingWx := True, error := [], place := Some p, hours := []\<rparr>,
            [Fetch url], True)"
  using assms by (simp add: fetchWeather_begin_def Let_def)

lemma searchCity_try_mirror:
  assumes "searchCity_try rt resp = Inr cs"
  shows "\<exists>data res rs. resp = Response True (Some data) \<and> getProp data ''results'' = Inr res \<and>
        js_or res (JArr []) = JArr rs \<and> length cs = length rs \<and>
        (\<forall>i<length rs.
           getProp (rs ! i) ''name'' = Inr (name (cs ! i)) \<and>
           getProp (rs ! i) ''country'' = Inr (country (cs ! i)) \<and>
           getProp (rs ! i) ''latitude'' = Inr (lat (cs ! i)) \<and>
           getProp (rs ! i) ''longitude'' = Inr (lon (cs ! i))) \<and>
        (length rs \<le> 5 \<longrightarrow> length cs \<le> 5) \<and>
        ((\<forall>i<length rs. \<exists>a b. getProp (rs ! i) ''latitude'' = Inr (JNum a) \<and>
                                 getProp (rs ! i) ''longitude'' = Inr (JNum b)) \<longrightarrow>
         (\<forall>i<length cs. is_number (lat (cs ! i)) \<and> is_number (lon (cs ! i))))"
proof -
  from searchCity_try_Inr [OF assms] obtain data res
    where resp: "resp = Response True (Some data)"
      and res: "getProp data ''results'' = Inr res"
      and mp: "js_map (\<lambda>r i. to_city rt r) (js_or res (JArr [])) = Inr cs"
    by blast
  from js_map_Inr [OF mp] obtain rs
    where rs: "js_or res (JArr []) = JArr rs" and len: "length cs = length rs"
      and nth: "\<forall>i<length rs. to_city rt (rs ! i) = Inr (cs ! i)"
    by blast
  have fields: "getProp (rs ! i) ''name'' = Inr (name (cs ! i)) \<and>
           getProp (rs ! i) ''country'' = Inr (country (cs ! i)) \<and>
           getProp (rs ! i) ''latitude'' = Inr (lat (cs ! i)) \<and>
           getProp (rs ! i) ''longitude'' = Inr (lon (cs ! i))"
    if "i < length rs" for i
    using nth that to_city_Inr [of rt "rs ! i" "cs ! i"] by simp
  have numbers: "\<forall>i<length cs. is_number (lat (cs ! i)) \<and> is_number (lon (cs ! i))"
    if num: "\<forall>i<length rs. \<exists>a b. getProp (rs ! i) ''latitude'' = Inr (JNum a) \<and>
                                 getProp (rs ! i) ''longitude'' = Inr (JNum b)"
  proof (intro allI impI)
    fix i assume i: "i < length cs"
    with len num obtain a b where a: "getProp (rs ! i) ''latitude'' = Inr (JNum a)"
      and b: "getProp (rs ! i) ''longitude'' = Inr (JNum b)"
      by auto
    from fields [of i] i len have "getProp (rs ! i) ''latitude'' = Inr (lat (cs ! i))"
      and "getProp (rs ! i) ''longitude'' = Inr (lon (cs ! i))"
      by simp_all
    with a b have "lat (cs ! i) = JNum a" and "lon (cs ! i) = JNum b"
      by simp_all
    then show "is_number (lat (cs ! i)) \<and> is_number (lon (cs ! i))"
      by simp
  qed
  show ?thesis
    using resp res rs len fields numbers
    by (intro exI [of _ data] exI [of _ res] exI [of _ rs]) simp
qed

section \<open>The claims\<close>



text \<open>
  Claim C2. The weather-code classifier is a function of its argument alone (a HOL
  function: equal arguments give equal results, and nothing else is read or written).
  On every value it returns one of nine strings, which are pairwise different, and on
  an integer code it returns the string of the code's category, the ninth string being
  the fallback for every other integer.
\<close>

theorem codeToEmoji_total:
  "codeToEmoji c \<in> set categories \<and> distinct categories \<and> length categories = 9 \<and>
   codeToEmoji (JNum (of_int n)) =
     (if n = 0 then emoji_clear
      else if n \<in> {1, 2} then emoji_partly_cloudy
      else if n = 3 then emoji_overcast
      else if n \<in> {45, 48} then emoji_fog
      else if n \<in> {51, 53, 55, 56, 57} then emoji_drizzle
      else if n \<in> {61, 63, 65, 66, 67, 80, 81, 82} then emoji_rain
      else if n \<in> {71, 73, 75, 77, 85, 86} then emoji_snow
      else if n \<in> {95, 96, 99} then emoji_thunderstorm
      else emoji_unknown)"
proof -
  have "codeToEmoji c \<in> set categories"
    by (simp add: codeToEmoji_def categories_def)
  moreover have "distinct categories \<and> length categories = 9"
    by (simp add: categories_def emoji_clear_def emoji_partly_cloudy_def emoji_overcast_def
        emoji_fog_def emoji_drizzle_def emoji_rain_def emoji_snow_def emoji_thunderstorm_def
        emoji_unknown_def)
  moreover have "codeToEmoji (JNum (of_int n)) =
     (if n = 0 then emoji_clear
      else if n \<in> {1, 2} then emoji_partly_cloudy
      else if n = 3 then emoji_overcast
      else if n \<in> {45, 48} then emoji_fog
      else if n \<in> {51, 53, 55, 56, 57} then emoji_drizzle
      else if n \<in> {61, 63, 65, 66, 67, 80, 81, 82} then emoji_rain
      else if n \<in> {71, 73, 75, 77, 85, 86} then emoji_snow
      else if n \<in> {95, 96, 99} then emoji_thunderstorm
      else emoji_unknown)"
    by (simp add: codeToEmoji_def js_includes_def)
  ultimately show ?thesis by blast
qed

text \<open>
  Claim C3. When a search for the non-empty trimmed query \<open>q\<close> succeeds, the new recent
  list is \<open>q\<close> followed by the first seven of the old entries that differ from \<open>q\<close>
  once both are lower-cased, in their old order: \<open>q\<close> comes first, every old entry equal
  to \<open>q\<close> case-insensitively is gone, the other entries are kept in order, and there are
  at most 8 entries. This holds in whatever state the response finds. A list without
  case-insensitive duplicates stays without them, so every list reachable from the
  initial one has none; a query that equals an entry \<open>x\<close> of such a list
  case-insensitively takes the place of \<open>x\<close> in front, and a query that equals no
  entry of a list of at most seven stands in front of the whole list.
\<close>

theorem recent_list_update:
  assumes "search_text rt text st = q" and "q \<noteq> []" and "encodeURIComponent rt q = Some e"
    and "searchCity_try rt resp = Inr cs"
  shows "recent (fst (searchCity rt text resp st)) =
       q # take 7 (filter (\<lambda>x. toLowerCase rt x \<noteq> toLowerCase rt q) (recent st)) \<and>
     recent (searchCity_end rt q resp st') =
       q # take 7 (filter (\<lambda>x. toLowerCase rt x \<noteq> toLowerCase rt q) (recent st')) \<and>
     hd (recent (fst (searchCity rt text resp st))) = q \<and>
     length (recent (fst (searchCity rt text resp st))) \<le> 8 \<and>
     (\<forall>x\<in>set (tl (recent (fst (searchCity rt text resp st)))).
        toLowerCase rt x \<noteq> toLowerCase rt q) \<and>
     (ci_distinct rt (recent st) \<longrightarrow>
        ci_distinct rt (recent (fst (searchCity rt text resp st)))) \<and>
     (ci_distinct rt (recent initial_state) \<and> recent_reachable rt (recent st) \<longrightarrow>
        recent_reachable rt (recent (fst (searchCity rt text resp st))) \<and>
        ci_distinct rt (recent (fst (searchCity rt text resp st)))) \<and>
     (ci_distinct rt (recent st) \<and> length (recent st) \<le> 8 \<and> x \<in> set (recent st) \<and>
      toLowerCase rt x = toLowerCase rt q \<longrightarrow>
        recent (fst (searchCity rt text resp st)) = q # remove1 x (recent st)) \<and>
     (length (recent st) \<le> 7 \<and>
      (\<forall>y\<in>set (recent st). toLowerCase rt y \<noteq> toLowerCase rt q) \<longrightarrow>
        recent (fst (searchCity rt text resp st)) = q # recent st)"
proof -
  let ?new = "recent (fst (searchCity rt text resp st))"
  have eq: "?new = recent_next rt q (recent st)"
    using searchCity_success [OF assms] by simp
  have "?new = q # take 7 (filter (\<lambda>x. toLowerCase rt x \<noteq> toLowerCase rt q) (recent st))"
    unfolding eq by (rule recent_next_shape)
  moreover have "recent (searchCity_end rt q resp st') =
       q # take 7 (filter (\<lambda>x. toLowerCase rt x \<noteq> toLowerCase rt q) (recent st'))"
    by (simp add: searchCity_end_success [OF assms(4)] recent_next_shape)
  moreover have "hd ?new = q"
    unfolding eq by (simp add: recent_next_shape)
  moreover have "length ?new \<le> 8"
    unfolding eq by (rule recent_next_length)
  moreover have "\<forall>x\<in>set (tl ?new). toLowerCase rt x \<noteq> toLowerCase rt q"
    unfolding eq using recent_next_tail by blast
  moreover have "ci_distinct rt (recent st) \<longrightarrow> ci_distinct rt ?new"
    unfolding eq using recent_next_ci_distinct by blast
  moreover have "ci_distinct rt (recent initial_state) \<and> recent_reachable rt (recent st) \<longrightarrow>
        recent_reachable rt ?new \<and> ci_distinct rt ?new"
    unfolding eq
    using recent_reachable.submit [OF _ assms(2)] recent_reachable_invariant [of rt]
    by blast
  moreover have "ci_distinct rt (recent st) \<and> length (recent st) \<le> 8 \<and> x \<in> set (recent st) \<and>
      toLowerCase rt x = toLowerCase rt q \<longrightarrow> ?new = q # remove1 x (recent st)"
    unfolding eq using recent_next_moves_to_front by blast
  moreover have "length (recent st) \<le> 7 \<and>
      (\<forall>y\<in>set (recent st). toLowerCase rt y \<noteq> toLowerCase rt q) \<longrightarrow> ?new = q # recent st"
    unfolding eq by (simp add: recent_next_shape filter_id_conv)
  ultimately show ?thesis by blast
qed

theorem recent_list_update_witness:
  "search_text ascii_runtime (Some ''toronto'') initial_state = ''toronto'' \<and>
   encodeURIComponent ascii_runtime ''toronto'' = Some ''toronto'' \<and>
   searchCity_try ascii_runtime (Response True (Some (JObj []))) = Inr [] \<and>
   ci_distinct ascii_runtime (recent initial_state) \<and>
   recent_reachable ascii_runtime (recent initial_state) \<and>
   ''Toronto'' \<in> set (recent initial_state) \<and>
   toLowerCase ascii_runtime ''Toronto'' = toLowerCase ascii_runtime ''toronto'' \<and>
   recent (fst (searchCity ascii_runtime (Some ''toronto'') (Response True (Some (JObj [])))
     initial_state)) = [''toronto'', ''Hamilton'', ''New York''] \<and>
   ci_distinct ascii_runtime [''toronto'', ''Hamilton'', ''New York''] \<and>
   recent_reachable ascii_runtime [''toronto'', ''Hamilton'', ''New York''] \<and>
   search_text ascii_runtime (Some ''Bern'') initial_state = ''Bern'' \<and>
   encodeURIComponent ascii_runtime ''Bern'' = Some ''Bern'' \<and>
   recent (fst (searchCity ascii_runtime (Some ''Bern'') (Response True (Some (JObj [])))
     initial_state)) = [''Bern'', ''Hamilton'', ''Toronto'', ''New York''] \<and>
   recent (searchCity_end ascii_runtime ''Bern'' (Response True (Some (JObj []))) full_recent) =
     [''Bern'', ''Oslo'', ''Lima'', ''Rome'', ''Cairo'', ''Paris'', ''Quito'', ''Delhi'']"
proof -
  have h1: "search_text ascii_runtime (Some ''toronto'') initial_state = ''toronto''"
    by (simp add: search_text_def runtime_defs)
  have h2: "''toronto'' \<noteq> []" by simp
  have h3: "encodeURIComponent ascii_runtime ''toronto'' = Some ''toronto''"
    by (simp add: runtime_defs)
  have h4: "searchCity_try ascii_runtime (Response True (Some (JObj []))) = Inr []"
    by (simp add: flow_defs)
  have h5: "ci_distinct ascii_runtime (recent initial_state)"
    by (simp add: runtime_defs initial_state_def ci_distinct_def)
  have h6: "recent_reachable ascii_runtime (recent initial_state)"
    by (rule recent_reachable.initial)
  have h7: "''Toronto'' \<in> set (recent initial_state)"
    by (simp add: initial_state_def)
  have h8: "toLowerCase ascii_runtime ''Toronto'' = toLowerCase ascii_runtime ''toronto''"
    by (simp add: runtime_defs)
  have h9: "length (recent initial_state) \<le> 8"
    by (simp add: initial_state_def)
  have v: "''toronto'' # remove1 ''Toronto'' (recent initial_state) =
      [''toronto'', ''Hamilton'', ''New York'']"
    by (simp add: initial_state_def)
  note inst = recent_list_update [OF h1 h2 h3 h4, of initial_state "''Toronto''"]
  note reach = inst [THEN conjunct2, THEN conjunct2, THEN conjunct2, THEN conjunct2,
      THEN conjunct2, THEN conjunct2, THEN conjunct1]
  note front = inst [THEN conjunct2, THEN conjunct2, THEN conjunct2, THEN conjunct2,
      THEN conjunct2, THEN conjunct2, THEN conjunct2, THEN conjunct1]
  have r: "recent (fst (searchCity ascii_runtime (Some ''toronto'')
      (Response True (Some (JObj []))) initial_state)) =
      [''toronto'', ''Hamilton'', ''New York'']"
    using front [rule_format, OF conjI [OF h5 conjI [OF h9 conjI [OF h7 h8]]]]
    unfolding v .
  have t: "recent_reachable ascii_runtime [''toronto'', ''Hamilton'', ''New York''] \<and>
      ci_distinct ascii_runtime [''toronto'', ''Hamilton'', ''New York'']"
    using reach [rule_format, OF conjI [OF h5 h6]] unfolding r .
  have k1: "search_text ascii_runtime (Some ''Bern'') initial_state = ''Bern''"
    by (simp add: search_text_def runtime_defs)
  have k2: "''Bern'' \<noteq> []" by simp
  have k3: "encodeURIComponent ascii_runtime ''Bern'' = Some ''Bern''"
    by (simp add: runtime_defs)
  have k5: "length (recent initial_state) \<le> 7 \<and>
      (\<forall>y\<in>set (recent initial_state).
         toLowerCase ascii_runtime y \<noteq> toLowerCase ascii_runtime ''Bern'')"
    by (simp add: runtime_defs initial_state_def)
  note inst2 = recent_list_update [OF k1 k2 k3 h4, of full_recent]
  note fresh = inst2 [THEN conjunct2, THEN conjunct2, THEN conjunct2, THEN conjunct2,
      THEN conjunct2, THEN conjunct2, THEN conjunct2, THEN conjunct2]
  note found = inst2 [THEN conjunct2, THEN conjunct1]
  have b1': "''Bern'' # recent initial_state = [''Bern'', ''Hamilton'', ''Toronto'', ''New York'']"
    by (simp add: initial_state_def)
  have b2': "''Bern'' # take 7 (filter (\<lambda>x. toLowerCase ascii_runtime x \<noteq>
        toLowerCase ascii_runtime ''Bern'') (recent full_recent)) =
      [''Bern'', ''Oslo'', ''Lima'', ''Rome'', ''Cairo'', ''Paris'', ''Quito'', ''Delhi'']"
    by (simp add: runtime_defs input_defs)
  have b1: "recent (fst (searchCity ascii_runtime (Some ''Bern'')
      (Response True (Some (JObj []))) initial_state)) =
      [''Bern'', ''Hamilton'', ''Toronto'', ''New York'']"
    using fresh [rule_format, OF k5] unfolding b1' .
  have b2: "recent (searchCity_end ascii_runtime ''Bern'' (Response True (Some (JObj [])))
        full_recent) =
      [''Bern'', ''Oslo'', ''Lima'', ''Rome'', ''Cairo'', ''Paris'', ''Quito'', ''Delhi'']"
    using found unfolding b2' .
  note t1 = t [THEN conjunct1] and t2 = t [THEN conjunct2]
  show ?thesis
    by (intro conjI) (rule h1 h3 h4 h5 h6 h7 h8 r t1 t2 k1 k3 b1 b2)+
qed

text \<open>
  Claim C4. In mode \<^verbatim>\<open>basic\<close> the row of an hour sample has no precipitation cell. In
  mode \<^verbatim>\<open>precip\<close> it has exactly one, which shows 0 when the sample's precipitation is
  \<^verbatim>\<open>undefined\<close> (or \<^verbatim>\<open>null\<close>) and the sample's value otherwise.
\<close>

theorem HourRow_precipitation:
  "filter is_pop (HourRow ''basic'' item) = [] \<and>
   (nullish (pop item) \<longrightarrow> filter is_pop (HourRow ''precip'' item) = [HourPop (JNum 0)]) \<and>
   (\<not> nullish (pop item) \<longrightarrow> filter is_pop (HourRow ''precip'' item) = [HourPop (pop item)])"
  by (simp add: HourRow_def js_coalesce_def)

theorem HourRow_precipitation_witness:
  "nullish (pop \<lparr>key = JStr ''2025-01-01T00:00'', time = JStr ''2025-01-01T00:00'',
                 temp = JNum 1, code = JNum 3, pop = JUndefined\<rparr>) \<and>
   \<not> nullish (pop \<lparr>key = JStr ''2025-01-01T00:00'', time = JStr ''2025-01-01T00:00'',
                 temp = JNum 1, code = JNum 3, pop = JNum 40\<rparr>) \<and>
   filter is_pop (HourRow ''basic''
     \<lparr>key = JStr ''2025-01-01T00:00'', time = JStr ''2025-01-01T00:00'',
      temp = JNum 1, code = JNum 3, pop = JNum 40\<rparr>) = [] \<and>
   filter is_pop (HourRow ''precip''
     \<lparr>key = JStr ''2025-01-01T00:00'', time = JStr ''2025-01-01T00:00'',
      temp = JNum 1, code = JNum 3, pop = JUndefined\<rparr>) = [HourPop (JNum 0)] \<and>
   filter is_pop (HourRow ''precip''
     \<lparr>key = JStr ''2025-01-01T00:00'', time = JStr ''2025-01-01T00:00'',
      temp = JNum 1, code = JNum 3, pop = JNum 40\<rparr>) = [HourPop (JNum 40)]"
  using
    HourRow_precipitation [of "\<lparr>key = JStr ''2025-01-01T00:00'', time = JStr ''2025-01-01T00:00'',
      temp = JNum 1, code = JNum 3, pop = JUndefined\<rparr>"]
    HourRow_precipitation [of "\<lparr>key = JStr ''2025-01-01T00:00'', time = JStr ''2025-01-01T00:00'',
      temp = JNum 1, code = JNum 3, pop = JNum 40\<rparr>"]
  by simp

text \<open>
  Claim C5, as amended. For a non-empty trimmed query the flow sends exactly one
  request, whose URL asks for \<^verbatim>\<open>count=5\<close>, whenever \<^verbatim>\<open>encodeURIComponent\<close> does not throw
  on the query; when it throws, no request is sent and the call ends with the search
  message. A search that succeeds sets \<^verbatim>\<open>cities\<close>, in whatever state the response finds,
  to one place per entry of the response's \<^verbatim>\<open>results\<close> array, in the same order, with
  name, country, latitude and longitude copied from the entry as they are. So the places
  are at most 5 when the response has at most 5 results, and their coordinates are
  numbers when the response's are; the flow neither truncates the array nor looks at the
  coordinates.
\<close>

theorem searchCity_candidates_mirror_results:
  assumes "search_text rt text st = q" and "q \<noteq> []"
  shows "(encodeURIComponent rt q = None \<longrightarrow>
        searchCity rt text resp st =
          (st\<lparr>loadingCity := False, error := search_failed, cities := []\<rparr>,
           [KeyboardDismiss])) \<and>
     (encodeURIComponent rt q = Some e \<longrightarrow>
        snd (searchCity rt text resp st) =
          [KeyboardDismiss,
           Fetch (''https://geocoding-api.open-meteo.com/v1/search?name='' @ e @
                  ''&count=5&language=en&format=json'')]) \<and>
     (encodeURIComponent rt q = Some e \<and> searchCity_try rt resp = Inr cs \<longrightarrow>
        cities (fst (searchCity rt text resp st)) = cs \<and>
        error (fst (searchCity rt text resp st)) = []) \<and>
     (searchCity_try rt resp = Inr cs \<longrightarrow>
        cities (searchCity_end rt q resp st') = cs \<and>
        (\<exists>data res rs. resp = Response True (Some data) \<and>
           getProp data ''results'' = Inr res \<and>
           js_or res (JArr []) = JArr rs \<and> length cs = length rs \<and>
           (\<forall>i<length rs.
              getProp (rs ! i) ''name'' = Inr (name (cs ! i)) \<and>
              getProp (rs ! i) ''country'' = Inr (country (cs ! i)) \<and>
              getProp (rs ! i) ''latitude'' = Inr (lat (cs ! i)) \<and>
              getProp (rs ! i) ''longitude'' = Inr (lon (cs ! i))) \<and>
           (length rs \<le> 5 \<longrightarrow> length cs \<le> 5) \<and>
           ((\<forall>i<length rs. \<exists>a b. getProp (rs ! i) ''latitude'' = Inr (JNum a) \<and>
                                    getProp (rs ! i) ''longitude'' = Inr (JNum b)) \<longrightarrow>
            (\<forall>i<length cs. is_number (lat (cs ! i)) \<and> is_number (lon (cs ! i))))))"
proof (intro conjI impI)
  assume "encodeURIComponent rt q = None"
  from searchCity_not_encoded [OF assms this]
  show "searchCity rt text resp st =
          (st\<lparr>loadingCity := False, error := search_failed, cities := []\<rparr>,
           [KeyboardDismiss])" .
next
  assume "encodeURIComponent rt q = Some e"
  from searchCity_effects [OF assms this]
  show "snd (searchCity rt text resp st) =
          [KeyboardDismiss,
           Fetch (''https://geocoding-api.open-meteo.com/v1/search?name='' @ e @
                  ''&count=5&language=en&format=json'')]"
    by (simp add: geocoding_url_def)
next
  assume a: "encodeURIComponent rt q = Some e \<and> searchCity_try rt resp = Inr cs"
  then have enc: "encodeURIComponent rt q = Some e" and ok: "searchCity_try rt resp = Inr cs"
    by simp_all
  from searchCity_success [OF assms enc ok]
  show "cities (fst (searchCity rt text resp st)) = cs"
    and "error (fst (searchCity rt text resp st)) = []"
    by simp_all
next
  assume ok: "searchCity_try rt resp = Inr cs"
  show "cities (searchCity_end rt q resp st') = cs"
    by (simp add: searchCity_end_success [OF ok])
  from searchCity_try_mirror [OF ok]
  show "\<exists>data res rs. resp = Response True (Some data) \<and>
           getProp data ''results'' = Inr res \<and>
           js_or res (JArr []) = JArr rs \<and> length cs = length rs \<and>
           (\<forall>i<length rs.
              getProp (rs ! i) ''name'' = Inr (name (cs ! i)) \<and>
              getProp (rs ! i) ''country'' = Inr (country (cs ! i)) \<and>
              getProp (rs ! i) ''latitude'' = Inr (lat (cs ! i)) \<and>
              getProp (rs ! i) ''longitude'' = Inr (lon (cs ! i))) \<and>
           (length rs \<le> 5 \<longrightarrow> length cs \<le> 5) \<and>
           ((\<forall>i<length rs. \<exists>a b. getProp (rs ! i) ''latitude'' = Inr (JNum a) \<and>
                                    getProp (rs ! i) ''longitude'' = Inr (JNum b)) \<longrightarrow>
            (\<forall>i<length cs. is_number (lat (cs ! i)) \<and> is_number (lon (cs ! i))))" .
qed

theorem searchCity_candidates_mirror_results_witness:
  "search_text ascii_runtime (Some ''Hamilton'') initial_state = ''Hamilton'' \<and>
   encodeURIComponent ascii_runtime ''Hamilton'' = Some ''Hamilton'' \<and>
   searchCity_try ascii_runtime hamilton_found = Inr [hamilton] \<and>
   snd (searchCity ascii_runtime (Some ''Hamilton'') hamilton_found initial_state) =
     [KeyboardDismiss,
      Fetch ''https://geocoding-api.open-meteo.com/v1/search?name=Hamilton&count=5&language=en&format=json''] \<and>
   cities (fst (searchCity ascii_runtime (Some ''Hamilton'') hamilton_found initial_state)) =
     [hamilton] \<and>
   search_text no_encoding (Some ''Hamilton'') initial_state = ''Hamilton'' \<and>
   encodeURIComponent no_encoding ''Hamilton'' = None \<and>
   searchCity no_encoding (Some ''Hamilton'') hamilton_found initial_state =
     (initial_state\<lparr>error := search_failed\<rparr>, [KeyboardDismiss])"
proof -
  have h1: "search_text ascii_runtime (Some ''Hamilton'') initial_state = ''Hamilton''"
    by (simp add: search_text_def runtime_defs)
  have h2: "''Hamilton'' \<noteq> []" by simp
  have h3: "encodeURIComponent ascii_runtime ''Hamilton'' = Some ''Hamilton''"
    by (simp add: runtime_defs)
  have h4: "searchCity_try ascii_runtime hamilton_found = Inr [hamilton]"
    by (simp add: flow_defs runtime_defs input_defs enumerate_eq_zip upt_rec)
  note inst = searchCity_candidates_mirror_results [OF h1 h2,
      of hamilton_found "''Hamilton''" "[hamilton]" initial_state]
  note sent = inst [THEN conjunct2, THEN conjunct1, rule_format, OF h3]
  note found = inst [THEN conjunct2, THEN conjunct2, THEN conjunct1, rule_format,
      OF conjI [OF h3 h4], THEN conjunct1]
  have a: "snd (searchCity ascii_runtime (Some ''Hamilton'') hamilton_found initial_state) =
     [KeyboardDismiss,
      Fetch ''https://geocoding-api.open-meteo.com/v1/search?name=Hamilton&count=5&language=en&format=json'']"
    using sent by simp
  have n1: "search_text no_encoding (Some ''Hamilton'') initial_state = ''Hamilton''"
    by (simp add: search_text_def no_encoding_def runtime_defs)
  have n3: "encodeURIComponent no_encoding ''Hamilton'' = None"
    by (simp add: no_encoding_def)
  note inst2 = searchCity_candidates_mirror_results [OF n1 h2,
      of hamilton_found "''Hamilton''" "[hamilton]" initial_state]
  note unsent = inst2 [THEN conjunct1, rule_format, OF n3]
  have s: "initial_state\<lparr>loadingCity := False, error := search_failed, cities := []\<rparr> =
      initial_state\<lparr>error := search_failed\<rparr>"
    by (simp add: initial_state_def)
  have b: "searchCity no_encoding (Some ''Hamilton'') hamilton_found initial_state =
     (initial_state\<lparr>error := search_failed\<rparr>, [KeyboardDismiss])"
    using unsent unfolding s .
  show ?thesis
    by (intro conjI) (rule h1 h3 h4 a found n1 n3 b)+
qed

text \<open>
  The claim as stated fails: a response with six results, whose latitude is a string and
  whose longitude is \<^verbatim>\<open>null\<close>, is a successful search (no error message) that yields six
  places, and their latitude is not a number.
\<close>

theorem searchCity_at_most_five_counterexample:
  "error (fst (searchCity ascii_runtime (Some ''Springfield'')
            (Response True (Some six_results)) initial_state)) = [] \<and>
   length (cities (fst (searchCity ascii_runtime (Some ''Springfield'')
            (Response True (Some six_results)) initial_state))) = 6 \<and>
   \<not> length (cities (fst (searchCity ascii_runtime (Some ''Springfield'')
            (Response True (Some six_results)) initial_state))) \<le> 5 \<and>
   lat (cities (fst (searchCity ascii_runtime (Some ''Springfield'')
            (Response True (Some six_results)) initial_state)) ! 0) = JStr ''39.8'' \<and>
   \<not> is_number (lat (cities (fst (searchCity ascii_runtime (Some ''Springfield'')
            (Response True (Some six_results)) initial_state)) ! 0))"
proof -
  let ?c = "\<lparr>id' = ''1'', name = JStr ''Springfield'', country = JStr ''United States'',
             lat = JStr ''39.8'', lon = JNull\<rparr>"
  have sp: "to_city ascii_runtime springfield = Inr ?c"
    by (simp add: to_city_def bindE_def ownProp_def springfield_def runtime_defs)
  have tr: "searchCity_try ascii_runtime (Response True (Some six_results)) =
      Inr [?c, ?c, ?c, ?c, ?c, ?c]"
    by (simp add: searchCity_try_def six_results_def bindE_def ownProp_def js_or_def sp
        enumerate_eq_zip upt_rec)
  have h1: "search_text ascii_runtime (Some ''Springfield'') initial_state = ''Springfield''"
    by (simp add: search_text_def runtime_defs)
  have h2: "''Springfield'' \<noteq> []" by simp
  have h3: "encodeURIComponent ascii_runtime ''Springfield'' = Some ''Springfield''"
    by (simp add: runtime_defs)
  have "fst (searchCity ascii_runtime (Some ''Springfield'')
            (Response True (Some six_results)) initial_state) =
      initial_state\<lparr>loadingCity := False, error := [], cities := [?c, ?c, ?c, ?c, ?c, ?c],
        recent := recent_next ascii_runtime ''Springfield'' (recent initial_state)\<rparr>"
    by (simp add: searchCity_success [OF h1 h2 h3 tr])
  then show ?thesis by simp
qed


text \<open>
  Claim C6, as amended. A fetch that throws and a response whose status is not a success
  both make the \<^verbatim>\<open>try\<close> block of either flow throw, and whatever the block throws is
  caught inside the flow. When the response comes, the failing flow writes its one
  message to \<^verbatim>\<open>error\<close>, turns its loading flag off and changes nothing else of the state
  the response finds. Before the request the flow has emptied \<^verbatim>\<open>error\<close> and its own list
  (\<^verbatim>\<open>cities\<close> or \<^verbatim>\<open>hours\<close>), and the forecast flow has set \<^verbatim>\<open>place\<close>. So a call with
  nothing between its start and its response ends with its list empty and its message
  set, and otherwise in the state it started in, but for \<^verbatim>\<open>place\<close> in the forecast flow.
\<close>

theorem failure_sets_one_message:
  "searchCity_try rt Rejected = Inl NetworkError \<and>
   searchCity_try rt (Response False body) = Inl (Error ''Geocoding failed'') \<and>
   fetchWeather_try Rejected = Inl NetworkError \<and>
   fetchWeather_try (Response False body) = Inl (Error ''Forecast failed'') \<and>
   search_failed \<noteq> [] \<and> forecast_failed \<noteq> [] \<and>
   (searchCity_try rt resp = Inl e1 \<longrightarrow>
      searchCity_end rt q resp st' = st'\<lparr>error := search_failed, loadingCity := False\<rparr>) \<and>
   (fetchWeather_try resp = Inl e2 \<longrightarrow>
      fetchWeather_end resp st' = st'\<lparr>error := forecast_failed, loadingWx := False\<rparr>) \<and>
   (search_text rt text st = q \<and> q \<noteq> [] \<and> encodeURIComponent rt q = Some u \<longrightarrow>
      searchCity_begin rt text st =
        (st\<lparr>loadingCity := True, error := [], cities := []\<rparr>,
         [KeyboardDismiss, Fetch (geocoding_url u)], Some q)) \<and>
   (forecast_url rt (mode st) p = Inr url \<longrightarrow>
      fetchWeather_begin rt (Some p) st =
        (st\<lparr>loadingWx := True, error := [], place := Some p, hours := []\<rparr>,
         [Fetch url], True)) \<and>
   (search_text rt text st \<noteq> [] \<and>
    (searchCity_try rt resp = Inl e1 \<or> encodeURIComponent rt (search_text rt text st) = None) \<longrightarrow>
      fst (searchCity rt text resp st) =
        st\<lparr>loadingCity := False, error := search_failed, cities := []\<rparr>) \<and>
   (fetchWeather_try resp = Inl e2 \<or> forecast_url rt (mode st) p = Inl e3 \<longrightarrow>
      fst (fetchWeather rt (Some p) resp st) =
        st\<lparr>loadingWx := False, error := forecast_failed, place := Some p, hours := []\<rparr>)"
proof -
  have "searchCity_try rt Rejected = Inl NetworkError"
    and "searchCity_try rt (Response False body) = Inl (Error ''Geocoding failed'')"
    by (simp_all add: searchCity_try_def)
  moreover have "fetchWeather_try Rejected = Inl NetworkError"
    and "fetchWeather_try (Response False body) = Inl (Error ''Forecast failed'')"
    by (simp_all add: fetchWeather_try_def)
  moreover have "search_failed \<noteq> []" and "forecast_failed \<noteq> []"
    by (simp_all add: search_failed_def forecast_failed_def)
  moreover have "searchCity_try rt resp = Inl e1 \<longrightarrow>
      searchCity_end rt q resp st' = st'\<lparr>error := search_failed, loadingCity := False\<rparr>"
    using searchCity_end_thrown by blast
  moreover have "fetchWeather_try resp = Inl e2 \<longrightarrow>
      fetchWeather_end resp st' = st'\<lparr>error := forecast_failed, loadingWx := False\<rparr>"
    using fetchWeather_end_thrown by blast
  moreover have "search_text rt text st = q \<and> q \<noteq> [] \<and> encodeURIComponent rt q = Some u \<longrightarrow>
      searchCity_begin rt text st =
        (st\<lparr>loadingCity := True, error := [], cities := []\<rparr>,
         [KeyboardDismiss, Fetch (geocoding_url u)], Some q)"
    using searchCity_begin_awaits by blast
  moreover have "forecast_url rt (mode st) p = Inr url \<longrightarrow>
      fetchWeather_begin rt (Some p) st =
        (st\<lparr>loadingWx := True, error := [], place := Some p, hours := []\<rparr>,
         [Fetch url], True)"
    using fetchWeather_begin_awaits by blast
  moreover have "search_text rt text st \<noteq> [] \<and>
    (searchCity_try rt resp = Inl e1 \<or> encodeURIComponent rt (search_text rt text st) = None) \<longrightarrow>
      fst (searchCity rt text resp st) =
        st\<lparr>loadingCity := False, error := search_failed, cities := []\<rparr>"
    using searchCity_thrown by blast
  moreover have "fetchWeather_try resp = Inl e2 \<or> forecast_url rt (mode st) p = Inl e3 \<longrightarrow>
      fst (fetchWeather rt (Some p) resp st) =
        st\<lparr>loadingWx := False, error := forecast_failed, place := Some p, hours := []\<rparr>"
    using fetchWeather_thrown by blast
  ultimately show ?thesis by blast
qed

theorem failure_sets_one_message_witness:
  "search_text ascii_runtime (Some ''Hamilton'') initial_state = ''Hamilton'' \<and>
   encodeURIComponent ascii_runtime ''Hamilton'' = Some ''Hamilton'' \<and>
   forecast_url ascii_runtime (mode initial_state) hamilton =
     Inr ''https://api.open-meteo.com/v1/forecast?latitude=43&longitude=-80&hourly=temperature_2m,weathercode&timezone=auto'' \<and>
   searchCity_try ascii_runtime (Response False None) = Inl (Error ''Geocoding failed'') \<and>
   fetchWeather_try (Response False None) = Inl (Error ''Forecast failed'') \<and>
   searchCity_end ascii_runtime ''Hamilton'' (Response False None)
       (initial_state\<lparr>cities := [hamilton]\<rparr>) =
     initial_state\<lparr>cities := [hamilton], error := search_failed\<rparr> \<and>
   fetchWeather_end (Response False None) (initial_state\<lparr>cities := [hamilton]\<rparr>) =
     initial_state\<lparr>cities := [hamilton], error := forecast_failed\<rparr> \<and>
   fst (searchCity_begin ascii_runtime (Some ''Hamilton'') initial_state) =
     initial_state\<lparr>loadingCity := True\<rparr> \<and>
   fst (fetchWeather_begin ascii_runtime (Some hamilton) initial_state) =
     initial_state\<lparr>loadingWx := True, place := Some hamilton\<rparr> \<and>
   fst (searchCity ascii_runtime (Some ''Hamilton'') (Response False None) initial_state) =
     initial_state\<lparr>error := search_failed\<rparr> \<and>
   fst (fetchWeather ascii_runtime (Some hamilton) (Response False None) initial_state) =
     initial_state\<lparr>error := forecast_failed, place := Some hamilton\<rparr>"
proof -
  let ?url = "''https://api.open-meteo.com/v1/forecast?latitude=43&longitude=-80&hourly=temperature_2m,weathercode&timezone=auto''"
  have h1: "search_text ascii_runtime (Some ''Hamilton'') initial_state = ''Hamilton''"
    by (simp add: search_text_def runtime_defs)
  have h2: "''Hamilton'' \<noteq> []" by simp
  have h3: "encodeURIComponent ascii_runtime ''Hamilton'' = Some ''Hamilton''"
    by (simp add: runtime_defs)
  have h4: "forecast_url ascii_runtime (mode initial_state) hamilton = Inr ?url"
    by (simp add: forecast_url_def hourly_fields_def bindE_def runtime_defs input_defs)
  have h5: "search_text ascii_runtime (Some ''Hamilton'') initial_state \<noteq> []"
    using h1 by simp
  note inst = failure_sets_one_message [of ascii_runtime None "Response False None"
      "Error ''Geocoding failed''" "''Hamilton''" "initial_state\<lparr>cities := [hamilton]\<rparr>"
      "Error ''Forecast failed''" "Some ''Hamilton''" initial_state "''Hamilton''" hamilton ?url]
  note s = inst [THEN conjunct2, THEN conjunct1]
  note f = inst [THEN conjunct2, THEN conjunct2, THEN conjunct2, THEN conjunct1]
  note rest = inst [THEN conjunct2, THEN conjunct2, THEN conjunct2, THEN conjunct2,
      THEN conjunct2, THEN conjunct2]
  note se = rest [THEN conjunct1, rule_format, OF s]
  note fe = rest [THEN conjunct2, THEN conjunct1, rule_format, OF f]
  note sb = rest [THEN conjunct2, THEN conjunct2, THEN conjunct1, rule_format,
      OF conjI [OF h1 conjI [OF h2 h3]]]
  note fb = rest [THEN conjunct2, THEN conjunct2, THEN conjunct2, THEN conjunct1, rule_format, OF h4]
  note sc = rest [THEN conjunct2, THEN conjunct2, THEN conjunct2, THEN conjunct2, THEN conjunct1,
      rule_format, OF conjI [OF h5 disjI1 [OF s]]]
  note fc = rest [THEN conjunct2, THEN conjunct2, THEN conjunct2, THEN conjunct2, THEN conjunct2,
      rule_format, OF disjI1 [OF f]]
  have se': "searchCity_end ascii_runtime ''Hamilton'' (Response False None)
       (initial_state\<lparr>cities := [hamilton]\<rparr>) =
     initial_state\<lparr>cities := [hamilton], error := search_failed\<rparr>"
    unfolding se by (simp add: initial_state_def)
  have fe': "fetchWeather_end (Response False None) (initial_state\<lparr>cities := [hamilton]\<rparr>) =
     initial_state\<lparr>cities := [hamilton], error := forecast_failed\<rparr>"
    unfolding fe by (simp add: initial_state_def)
  have sb': "fst (searchCity_begin ascii_runtime (Some ''Hamilton'') initial_state) =
     initial_state\<lparr>loadingCity := True\<rparr>"
    unfolding sb by (simp add: initial_state_def)
  have fb': "fst (fetchWeather_begin ascii_runtime (Some hamilton) initial_state) =
     initial_state\<lparr>loadingWx := True, place := Some hamilton\<rparr>"
    unfolding fb by (simp add: initial_state_def)
  have sc': "fst (searchCity ascii_runtime (Some ''Hamilton'') (Response False None) initial_state) =
     initial_state\<lparr>error := search_failed\<rparr>"
    unfolding sc by (simp add: initial_state_def)
  have fc': "fst (fetchWeather ascii_runtime (Some hamilton) (Response False None) initial_state) =
     initial_state\<lparr>error := forecast_failed, place := Some hamilton\<rparr>"
    unfolding fc by (simp add: initial_state_def)
  show ?thesis
    by (intro conjI) (rule h1 h3 h4 s f se' fe' sb' fb' sc' fc')+
qed

text \<open>
  The claim as stated fails twice. A search for \<^verbatim>\<open>Toronto\<close> is waiting for its response
  when a search for \<^verbatim>\<open>Hamilton\<close> starts and succeeds; the first search then fails, and it
  ends with the message set and the candidate list not empty. And a forecast call that
  fails from the initial state, where no place is selected, ends with a place selected:
  the message is not the only thing it has set.
\<close>

theorem failure_sets_one_message_counterexample:
  "snd (snd (searchCity_begin ascii_runtime (Some ''Toronto'') initial_state)) = Some ''Toronto'' \<and>
   error (searchCity_end ascii_runtime ''Toronto'' Rejected
     (searchCity_end ascii_runtime ''Hamilton'' hamilton_found
       (fst (searchCity_begin ascii_runtime (Some ''Hamilton'')
         (fst (searchCity_begin ascii_runtime (Some ''Toronto'') initial_state)))))) =
     search_failed \<and>
   cities (searchCity_end ascii_runtime ''Toronto'' Rejected
     (searchCity_end ascii_runtime ''Hamilton'' hamilton_found
       (fst (searchCity_begin ascii_runtime (Some ''Hamilton'')
         (fst (searchCity_begin ascii_runtime (Some ''Toronto'') initial_state)))))) =
     [hamilton] \<and>
   place initial_state = None \<and>
   error (fst (fetchWeather ascii_runtime (Some hamilton) Rejected initial_state)) =
     forecast_failed \<and>
   place (fst (fetchWeather ascii_runtime (Some hamilton) Rejected initial_state)) =
     Some hamilton"
proof -
  have t1: "search_text ascii_runtime (Some ''Toronto'') st = ''Toronto''" for st
    by (simp add: search_text_def runtime_defs)
  have t3: "encodeURIComponent ascii_runtime ''Toronto'' = Some ''Toronto''"
    by (simp add: runtime_defs)
  have h1: "search_text ascii_runtime (Some ''Hamilton'') st = ''Hamilton''" for st
    by (simp add: search_text_def runtime_defs)
  have h3: "encodeURIComponent ascii_runtime ''Hamilton'' = Some ''Hamilton''"
    by (simp add: runtime_defs)
  have ok: "searchCity_try ascii_runtime hamilton_found = Inr [hamilton]"
    by (simp add: flow_defs runtime_defs input_defs enumerate_eq_zip upt_rec)
  have ko: "searchCity_try ascii_runtime Rejected = Inl NetworkError"
    by (simp add: searchCity_try_def)
  have a: "searchCity_begin ascii_runtime (Some ''Toronto'') initial_state =
      (initial_state\<lparr>loadingCity := True, error := [], cities := []\<rparr>,
       [KeyboardDismiss, Fetch (geocoding_url ''Toronto'')], Some ''Toronto'')"
    by (rule searchCity_begin_awaits [OF t1 _ t3]) simp
  have b: "fst (searchCity_begin ascii_runtime (Some ''Hamilton'') st) =
      st\<lparr>loadingCity := True, error := [], cities := []\<rparr>" for st
    by (simp add: searchCity_begin_awaits [OF h1 _ h3])
  have "fetchWeather_try Rejected = Inl NetworkError"
    by (simp add: fetchWeather_try_def)
  from fetchWeather_thrown [OF disjI1 [OF this], where rt = ascii_runtime and st = initial_state
      and p = hamilton]
  have w: "fst (fetchWeather ascii_runtime (Some hamilton) Rejected initial_state) =
      initial_state\<lparr>loadingWx := False, error := forecast_failed, place := Some hamilton,
        hours := []\<rparr>" .
  have pn: "place initial_state = None"
    by (simp add: initial_state_def)
  show ?thesis
    by (simp add: a b w pn searchCity_end_success [OF ok] searchCity_end_thrown [OF ko])
qed

text \<open>
  Claim C7. When the text to search for, \<^verbatim>\<open>(text || query).trim()\<close>, is empty, the call
  returns at once: the state is the one it started in, and there is no effect (no
  request, and the keyboard is not dismissed).
\<close>

theorem searchCity_empty_is_noop:
  assumes "search_text rt text st = []"
  shows "searchCity_begin rt text st = (st, [], None) \<and> searchCity rt text resp st = (st, [])"
  using assms by (simp add: searchCity_def searchCity_begin_def)

theorem searchCity_empty_is_noop_witness:
  "search_text ascii_runtime (Some ''   '') (initial_state\<lparr>query := ''Paris''\<rparr>) = [] \<and>
   searchCity_begin ascii_runtime (Some ''   '') (initial_state\<lparr>query := ''Paris''\<rparr>) =
     (initial_state\<lparr>query := ''Paris''\<rparr>, [], None) \<and>
   searchCity ascii_runtime (Some ''   '') Rejected (initial_state\<lparr>query := ''Paris''\<rparr>) =
     (initial_state\<lparr>query := ''Paris''\<rparr>, [])"
proof -
  have h: "search_text ascii_runtime (Some ''   '') (initial_state\<lparr>query := ''Paris''\<rparr>) = []"
    by (simp add: search_text_def runtime_defs)
  show ?thesis using h searchCity_empty_is_noop [OF h, of Rejected] by simp
qed

text \<open>
  Claim C8. With a place selected whose coordinates convert to strings (as every number
  does), setting a mode other than the current one starts exactly one request, for the
  forecast URL of that place with the hourly fields of the new mode, and empties
  \<^verbatim>\<open>hours\<close>. When the response comes, \<^verbatim>\<open>hours\<close> becomes the rows computed from that
  response alone, all of them at once, or stays as the response found it when the flow
  fails: with nothing else in between it is empty then. So \<^verbatim>\<open>hours\<close> is the old list,
  the empty list or the new list, never a mixture.
\<close>

theorem setMode_refetches_once:
  assumes "place st = Some p" and "v \<noteq> mode st"
    and "ToString rt (lat p) = Some la" and "ToString rt (lon p) = Some lo"
  shows "setMode_begin rt v st =
       (st\<lparr>mode := v, loadingWx := True, error := [], hours := []\<rparr>,
        [Fetch (''https://api.open-meteo.com/v1/forecast?latitude='' @ la @ ''&longitude='' @
                lo @ ''&hourly='' @ hourly_fields v @ ''&timezone=auto'')],
        True) \<and>
     hours (fetchWeather_end resp st') =
       (case fetchWeather_try resp of Inl e \<Rightarrow> hours st' | Inr rows \<Rightarrow> rows) \<and>
     hours (fetchWeather_end resp (fst (setMode_begin rt v st))) =
       (case fetchWeather_try resp of Inl e \<Rightarrow> [] | Inr rows \<Rightarrow> rows) \<and>
     place (fetchWeather_end resp (fst (setMode_begin rt v st))) = Some p \<and>
     mode (fetchWeather_end resp (fst (setMode_begin rt v st))) = v"
proof -
  have b: "setMode_begin rt v st =
       (st\<lparr>mode := v, loadingWx := True, error := [], hours := []\<rparr>,
        [Fetch (''https://api.open-meteo.com/v1/forecast?latitude='' @ la @ ''&longitude='' @
                lo @ ''&hourly='' @ hourly_fields v @ ''&timezone=auto'')],
        True)"
    using assms
    by (simp add: setMode_begin_def fetchWeather_begin_def forecast_url_def template_def
        bindE_def Let_def)
  have e: "hours (fetchWeather_end resp s) =
       (case fetchWeather_try resp of Inl e \<Rightarrow> hours s | Inr rows \<Rightarrow> rows)" for s
    by (simp add: fetchWeather_end_def split: sum.splits)
  have "hours (fetchWeather_end resp (fst (setMode_begin rt v st))) =
       (case fetchWeather_try resp of Inl e \<Rightarrow> [] | Inr rows \<Rightarrow> rows)"
    by (simp add: e b split: sum.splits)
  moreover have "place (fetchWeather_end resp (fst (setMode_begin rt v st))) = Some p"
    and "mode (fetchWeather_end resp (fst (setMode_begin rt v st))) = v"
    using assms(1) by (simp_all add: b fetchWeather_end_def split: sum.splits)
  ultimately show ?thesis using b e by simp
qed

theorem setMode_refetches_once_witness:
  "place (initial_state\<lparr>place := Some hamilton\<rparr>) = Some hamilton \<and>
   ''precip'' \<noteq> mode (initial_state\<lparr>place := Some hamilton\<rparr>) \<and>
   ToString ascii_runtime (lat hamilton) = Some ''43'' \<and>
   ToString ascii_runtime (lon hamilton) = Some ''-80'' \<and>
   setMode_begin ascii_runtime ''precip'' (initial_state\<lparr>place := Some hamilton\<rparr>) =
     (initial_state\<lparr>place := Some hamilton, mode := ''precip'', loadingWx := True\<rparr>,
      [Fetch ''https://api.open-meteo.com/v1/forecast?latitude=43&longitude=-80&hourly=temperature_2m,precipitation_probability,weathercode&timezone=auto''],
      True) \<and>
   hours (fetchWeather_end (Response True (Some two_hours))
        (fst (setMode_begin ascii_runtime ''precip'' (initial_state\<lparr>place := Some hamilton\<rparr>)))) =
     [\<lparr>key = JStr ''2025-01-01T00:00'', time = JStr ''2025-01-01T00:00'', temp = JNum 1,
        code = JNum 3, pop = JUndefined\<rparr>,
      \<lparr>key = JStr ''2025-01-01T01:00'', time = JStr ''2025-01-01T01:00'', temp = JNum 2,
        code = JNum 61, pop = JUndefined\<rparr>]"
proof -
  have h1: "place (initial_state\<lparr>place := Some hamilton\<rparr>) = Some hamilton" by simp
  have h2: "''precip'' \<noteq> mode (initial_state\<lparr>place := Some hamilton\<rparr>)"
    by (simp add: initial_state_def)
  have h3: "ToString ascii_runtime (lat hamilton) = Some ''43''"
    and h4: "ToString ascii_runtime (lon hamilton) = Some ''-80''"
    by (simp_all add: runtime_defs hamilton_def)
  have r: "fetchWeather_try (Response True (Some two_hours)) =
     Inr [\<lparr>key = JStr ''2025-01-01T00:00'', time = JStr ''2025-01-01T00:00'', temp = JNum 1,
            code = JNum 3, pop = JUndefined\<rparr>,
          \<lparr>key = JStr ''2025-01-01T01:00'', time = JStr ''2025-01-01T01:00'', temp = JNum 2,
            code = JNum 61, pop = JUndefined\<rparr>]"
    by (simp add: flow_defs input_defs enumerate_eq_zip upt_rec)
  note inst = setMode_refetches_once [OF h1 h2 h3 h4, of "Response True (Some two_hours)"]
  have s: "initial_state\<lparr>place := Some hamilton\<rparr>
       \<lparr>mode := ''precip'', loadingWx := True, error := [], hours := []\<rparr> =
     initial_state\<lparr>place := Some hamilton, mode := ''precip'', loadingWx := True\<rparr>"
    by (simp add: initial_state_def)
  from inst have a: "setMode_begin ascii_runtime ''precip'' (initial_state\<lparr>place := Some hamilton\<rparr>) =
       (initial_state\<lparr>place := Some hamilton\<rparr>
          \<lparr>mode := ''precip'', loadingWx := True, error := [], hours := []\<rparr>,
        [Fetch (''https://api.open-meteo.com/v1/forecast?latitude='' @ ''43'' @ ''&longitude='' @
                ''-80'' @ ''&hourly='' @ hourly_fields ''precip'' @ ''&timezone=auto'')],
        True)"
    by (rule conjunct1)
  from inst [THEN conjunct2, THEN conjunct2, THEN conjunct1]
  have b: "hours (fetchWeather_end (Response True (Some two_hours))
        (fst (setMode_begin ascii_runtime ''precip'' (initial_state\<lparr>place := Some hamilton\<rparr>)))) =
       (case fetchWeather_try (Response True (Some two_hours)) of
          Inl e \<Rightarrow> [] | Inr rows \<Rightarrow> rows)" .
  have a': "setMode_begin ascii_runtime ''precip'' (initial_state\<lparr>place := Some hamilton\<rparr>) =
     (initial_state\<lparr>place := Some hamilton, mode := ''precip'', loadingWx := True\<rparr>,
      [Fetch ''https://api.open-meteo.com/v1/forecast?latitude=43&longitude=-80&hourly=temperature_2m,precipitation_probability,weathercode&timezone=auto''],
      True)"
    unfolding a s by (simp add: hourly_fields_def)
  have b': "hours (fetchWeather_end (Response True (Some two_hours))
        (fst (setMode_begin ascii_runtime ''precip'' (initial_state\<lparr>place := Some hamilton\<rparr>)))) =
     [\<lparr>key = JStr ''2025-01-01T00:00'', time = JStr ''2025-01-01T00:00'', temp = JNum 1,
        code = JNum 3, pop = JUndefined\<rparr>,
      \<lparr>key = JStr ''2025-01-01T01:00'', time = JStr ''2025-01-01T01:00'', temp = JNum 2,
        code = JNum 61, pop = JUndefined\<rparr>]"
    unfolding b r by simp
  from h1 h2 h3 h4 a' b' show ?thesis by blast
qed

text \<open>
  Claim C9, as amended. For a place \<open>p\<close> that is not \<^verbatim>\<open>null\<close>, the forecast flow has
  set \<^verbatim>\<open>place\<close> to \<open>p\<close> and emptied \<^verbatim>\<open>hours\<close> when it starts waiting for the response.
  A call whose \<^verbatim>\<open>try\<close> block throws then leaves \<^verbatim>\<open>place\<close> and \<^verbatim>\<open>hours\<close> as the response
  finds them and puts the forecast message in \<^verbatim>\<open>error\<close>. So with nothing between the
  start and the response, the call ends with \<^verbatim>\<open>place\<close> still \<open>p\<close>, \<^verbatim>\<open>hours\<close> empty and
  the message set.
\<close>

theorem fetchWeather_failure_keeps_place:
  "place (fst (fetchWeather_begin rt (Some p) st)) = Some p \<and>
   hours (fst (fetchWeather_begin rt (Some p) st)) = [] \<and>
   (fetchWeather_try resp = Inl e \<longrightarrow>
      place (fetchWeather_end resp st') = place st' \<and>
      hours (fetchWeather_end resp st') = hours st' \<and>
      error (fetchWeather_end resp st') = forecast_failed \<and>
      place (fst (fetchWeather rt (Some p) resp st)) = Some p \<and>
      hours (fst (fetchWeather rt (Some p) resp st)) = [] \<and>
      error (fst (fetchWeather rt (Some p) resp st)) = forecast_failed)"
proof -
  have "place (fst (fetchWeather_begin rt (Some p) st)) = Some p"
    and "hours (fst (fetchWeather_begin rt (Some p) st)) = []"
    by (simp_all add: fetchWeather_begin_def Let_def split: sum.splits)
  moreover have "place (fetchWeather_end resp st') = place st' \<and>
      hours (fetchWeather_end resp st') = hours st' \<and>
      error (fetchWeather_end resp st') = forecast_failed \<and>
      place (fst (fetchWeather rt (Some p) resp st)) = Some p \<and>
      hours (fst (fetchWeather rt (Some p) resp st)) = [] \<and>
      error (fst (fetchWeather rt (Some p) resp st)) = forecast_failed"
    if "fetchWeather_try resp = Inl e"
    using fetchWeather_thrown [of resp e rt st p] fetchWeather_end_thrown [OF that, of st'] that
    by simp
  ultimately show ?thesis by blast
qed

theorem fetchWeather_failure_keeps_place_witness:
  "fetchWeather_try Rejected = Inl NetworkError \<and>
   place (fst (fetchWeather_begin ascii_runtime (Some hamilton) initial_state)) = Some hamilton \<and>
   place (fetchWeather_end Rejected (initial_state\<lparr>place := Some oslo\<rparr>)) = Some oslo \<and>
   error (fetchWeather_end Rejected (initial_state\<lparr>place := Some oslo\<rparr>)) = forecast_failed \<and>
   place (fst (fetchWeather ascii_runtime (Some hamilton) Rejected initial_state)) =
     Some hamilton \<and>
   hours (fst (fetchWeather ascii_runtime (Some hamilton) Rejected initial_state)) = [] \<and>
   error (fst (fetchWeather ascii_runtime (Some hamilton) Rejected initial_state)) =
     forecast_failed"
proof -
  have h: "fetchWeather_try Rejected = Inl NetworkError"
    by (simp add: fetchWeather_try_def)
  note inst = fetchWeather_failure_keeps_place [of ascii_runtime hamilton initial_state Rejected
      NetworkError "initial_state\<lparr>place := Some oslo\<rparr>"]
  note b = inst [THEN conjunct1]
  note r = inst [THEN conjunct2, THEN conjunct2, rule_format, OF h]
  have e1: "place (fetchWeather_end Rejected (initial_state\<lparr>place := Some oslo\<rparr>)) = Some oslo"
    using r [THEN conjunct1] by simp
  note e2 = r [THEN conjunct2, THEN conjunct2, THEN conjunct1]
  note c1 = r [THEN conjunct2, THEN conjunct2, THEN conjunct2, THEN conjunct1]
  note c2 = r [THEN conjunct2, THEN conjunct2, THEN conjunct2, THEN conjunct2, THEN conjunct1]
  note c3 = r [THEN conjunct2, THEN conjunct2, THEN conjunct2, THEN conjunct2, THEN conjunct2]
  show ?thesis
    by (intro conjI) (rule h b e1 e2 c1 c2 c3)+
qed

text \<open>
  The claim as stated fails when calls overlap. The forecast for Hamilton is waiting for
  its response when the forecast for Oslo is asked for and arrives with two hours; the
  first request then fails, and the call ends with the message set, the place Oslo and
  the two hours in \<^verbatim>\<open>hours\<close>.
\<close>

theorem fetchWeather_failure_keeps_place_counterexample:
  "snd (snd (fetchWeather_begin ascii_runtime (Some hamilton) initial_state)) = True \<and>
   error (fetchWeather_end Rejected
     (fst (fetchWeather ascii_runtime (Some oslo) (Response True (Some two_hours))
       (fst (fetchWeather_begin ascii_runtime (Some hamilton) initial_state))))) =
     forecast_failed \<and>
   place (fetchWeather_end Rejected
     (fst (fetchWeather ascii_runtime (Some oslo) (Response True (Some two_hours))
       (fst (fetchWeather_begin ascii_runtime (Some hamilton) initial_state))))) =
     Some oslo \<and>
   oslo \<noteq> hamilton \<and>
   length (hours (fetchWeather_end Rejected
     (fst (fetchWeather ascii_runtime (Some oslo) (Response True (Some two_hours))
       (fst (fetchWeather_begin ascii_runtime (Some hamilton) initial_state)))))) = 2"
proof -
  let ?rows = "[\<lparr>key = JStr ''2025-01-01T00:00'', time = JStr ''2025-01-01T00:00'', temp = JNum 1,
            code = JNum 3, pop = JUndefined\<rparr>,
          \<lparr>key = JStr ''2025-01-01T01:00'', time = JStr ''2025-01-01T01:00'', temp = JNum 2,
            code = JNum 61, pop = JUndefined\<rparr>]"
  have uh: "forecast_url ascii_runtime ''basic'' hamilton =
      Inr ''https://api.open-meteo.com/v1/forecast?latitude=43&longitude=-80&hourly=temperature_2m,weathercode&timezone=auto''"
    by (simp add: forecast_url_def hourly_fields_def bindE_def runtime_defs input_defs)
  have uo: "forecast_url ascii_runtime ''basic'' oslo =
      Inr ''https://api.open-meteo.com/v1/forecast?latitude=60&longitude=11&hourly=temperature_2m,weathercode&timezone=auto''"
    by (simp add: forecast_url_def hourly_fields_def bindE_def runtime_defs input_defs)
  have ok: "fetchWeather_try (Response True (Some two_hours)) = Inr ?rows"
    by (simp add: flow_defs input_defs enumerate_eq_zip upt_rec)
  have ko: "fetchWeather_try Rejected = Inl NetworkError"
    by (simp add: fetchWeather_try_def)
  have a: "fetchWeather_begin ascii_runtime (Some hamilton) initial_state =
      (initial_state\<lparr>loadingWx := True, place := Some hamilton\<rparr>,
       [Fetch ''https://api.open-meteo.com/v1/forecast?latitude=43&longitude=-80&hourly=temperature_2m,weathercode&timezone=auto''],
       True)"
    by (simp add: fetchWeather_begin_def Let_def uh initial_state_def)
  have b: "fst (fetchWeather ascii_runtime (Some oslo) (Response True (Some two_hours))
        (initial_state\<lparr>loadingWx := True, place := Some hamilton\<rparr>)) =
      initial_state\<lparr>place := Some oslo, hours := ?rows\<rparr>"
    by (simp add: fetchWeather_def fetchWeather_begin_def fetchWeather_end_def Let_def uo ok
        initial_state_def)
  have d: "oslo \<noteq> hamilton"
    by (simp add: oslo_def hamilton_def)
  show ?thesis
    by (simp add: a b d fetchWeather_end_thrown [OF ko])
qed

text \<open>
  Claim C10. A response with a success status whose body is an object without a
  \<^verbatim>\<open>results\<close> property is a successful search with no candidate: \<^verbatim>\<open>cities\<close> is empty,
  \<^verbatim>\<open>error\<close> stays empty, and the recent list is updated with the query.
\<close>

theorem searchCity_without_results_field:
  assumes "search_text rt text st = q" and "q \<noteq> []" and "encodeURIComponent rt q = Some e"
    and "map_of kvs ''results'' = None"
  shows "searchCity rt text (Response True (Some (JObj kvs))) st =
     (st\<lparr>loadingCity := False, error := [], cities := [],
         recent := recent_next rt q (recent st)\<rparr>,
      [KeyboardDismiss, Fetch (geocoding_url e)])"
proof -
  have "searchCity_try rt (Response True (Some (JObj kvs))) = Inr []"
    using assms(4) by (simp add: searchCity_try_def bindE_def ownProp_def js_or_def)
  from searchCity_success [OF assms(1-3) this] show ?thesis .
qed

theorem searchCity_without_results_field_witness:
  "search_text ascii_runtime (Some '' new york '') initial_state = ''new york'' \<and>
   encodeURIComponent ascii_runtime ''new york'' = Some ''new%20york'' \<and>
   map_of [(''generationtime_ms'', JNum 1)] ''results'' = None \<and>
   searchCity ascii_runtime (Some '' new york '')
       (Response True (Some (JObj [(''generationtime_ms'', JNum 1)]))) initial_state =
     (initial_state\<lparr>recent := [''new york'', ''Hamilton'', ''Toronto'']\<rparr>,
      [KeyboardDismiss,
       Fetch ''https://geocoding-api.open-meteo.com/v1/search?name=new%20york&count=5&language=en&format=json''])"
proof -
  have h1: "search_text ascii_runtime (Some '' new york '') initial_state = ''new york''"
    by (simp add: search_text_def runtime_defs)
  have h2: "''new york'' \<noteq> []" by simp
  have h3: "encodeURIComponent ascii_runtime ''new york'' = Some ''new%20york''"
    by (simp add: runtime_defs)
  have h4: "map_of [(''generationtime_ms'', JNum 1)] ''results'' = None" by simp
  have n: "recent_next ascii_runtime ''new york'' (recent initial_state) =
      [''new york'', ''Hamilton'', ''Toronto'']"
    by (simp add: recent_next_def runtime_defs initial_state_def)
  have s: "initial_state\<lparr>loadingCity := False, error := [], cities := [],
         recent := [''new york'', ''Hamilton'', ''Toronto'']\<rparr> =
      initial_state\<lparr>recent := [''new york'', ''Hamilton'', ''Toronto'']\<rparr>"
    by (simp add: initial_state_def)
  from searchCity_without_results_field [OF h1 h2 h3 h4]
  have "searchCity ascii_runtime (Some '' new york '')
       (Response True (Some (JObj [(''generationtime_ms'', JNum 1)]))) initial_state =
     (initial_state\<lparr>recent := [''new york'', ''Hamilton'', ''Toronto'']\<rparr>,
      [KeyboardDismiss,
       Fetch ''https://geocoding-api.open-meteo.com/v1/search?name=new%20york&count=5&language=en&format=json''])"
    by (simp add: n s geocoding_url_def)
  with h1 h3 h4 show ?thesis by blast
qed

end
